theory Spec2Isabelle
  imports Complex_Main "HOL-Library.Word" "HOL-Library.Signed_Division"
    "HOL-Library.Char_ord" "HOL-Library.List_Lexorder"
begin

section \<open>Characters and library routines\<close>

text \<open>
  The source reads bytes of a \<^verbatim>\<open>std::string\<close>; a byte is a \<^typ>\<open>char\<close>. The
  classification functions of \<^verbatim>\<open><cctype></locale>\<close> are taken in the "C" locale, where
  they only accept ASCII.
\<close>

definition NUL :: char where "NUL = CHR 0x00"
definition NEWLINE :: char where "NEWLINE = CHR 0x0A"
definition TAB :: char where "TAB = CHR 0x09"
definition CR :: char where "CR = CHR 0x0D"
definition DQUOTE :: char where "DQUOTE = CHR 0x22"
definition SQUOTE :: char where "SQUOTE = CHR 0x27"

definition isdigit :: "char \<Rightarrow> bool" where
  "isdigit c = (let n = (of_char c :: nat) in 48 \<le> n \<and> n \<le> 57)"

definition isalpha :: "char \<Rightarrow> bool" where
  "isalpha c = (let n = (of_char c :: nat) in (65 \<le> n \<and> n \<le> 90) \<or> (97 \<le> n \<and> n \<le> 122))"

definition isalnum :: "char \<Rightarrow> bool" where
  "isalnum c = (isalpha c \<or> isdigit c)"

definition isspace :: "char \<Rightarrow> bool" where
  "isspace c = (let n = (of_char c :: nat) in n = 32 \<or> (9 \<le> n \<and> n \<le> 13))"

definition digit_val :: "char \<Rightarrow> nat" where
  "digit_val c = of_char c - 48"

text \<open>The value of a string of decimal digits, most significant digit first.\<close>

fun digits_val :: "nat \<Rightarrow> string \<Rightarrow> nat" where
  "digits_val acc [] = acc"
| "digits_val acc (c # cs) = digits_val (acc * 10 + digit_val c) cs"

section \<open>Tokens (lexer.hpp)\<close>

datatype TokenType =
    EOF_TOKEN | ERROR | IDENTIFIER | NUMBER | STRING
  | PLUS | MINUS | MULTIPLY | DIVIDE | MODULO | ASSIGN | EQUALS | NOT_EQUALS
  | LESS | GREATER | LESS_EQ | GREATER_EQ | BANG | AND | OR
  | LPAREN | RPAREN | LBRACE | RBRACE | LBRACKET | RBRACKET | COMMA | SEMICOLON | DOT
  | FUNC | PRINT | PRINTLN | LOOP | IF | ELSE | RETURN | VAR | TRUE | FALSE
  | NULL_TOKEN | BREAK

text \<open>
  \<^verbatim>\<open>TokenValue = std::variant<std::string, double, bool>\<close>. A default-constructed
  variant holds its first alternative, the empty string. A \<^verbatim>\<open>double\<close> is modelled
  by the real number it denotes (rounding, infinities and NaN are outside the model).
\<close>

datatype TokenValue = TVString string | TVDouble real | TVBool bool

text \<open>\<^verbatim>\<open>size_t\<close> line and column counters are 64-bit words, so that the subtractions
  the lexer performs on them wrap as they do in the source.\<close>

record Token =
  type :: TokenType
  tvalue :: TokenValue
  line :: "64 word"
  column :: "64 word"
  lexeme :: string

text \<open>The two constructors of \<^verbatim>\<open>Token\<close>: without a value (the value is the empty
  string) and with one.\<close>

definition Token4 :: "TokenType \<Rightarrow> string \<Rightarrow> 64 word \<Rightarrow> 64 word \<Rightarrow> Token" where
  "Token4 ty lx li col = \<lparr>type = ty, tvalue = TVString [], line = li, column = col, lexeme = lx\<rparr>"

definition Token5 :: "TokenType \<Rightarrow> TokenValue \<Rightarrow> string \<Rightarrow> 64 word \<Rightarrow> 64 word \<Rightarrow> Token" where
  "Token5 ty v lx li col = \<lparr>type = ty, tvalue = v, line = li, column = col, lexeme = lx\<rparr>"

section \<open>The lexer (lexer.cpp)\<close>

definition keywordTable :: "(string \<times> TokenType) list" where
  "keywordTable =
    [(''func'', FUNC), (''print'', PRINT), (''println'', PRINTLN), (''loop'', LOOP),
     (''if'', IF), (''else'', ELSE), (''return'', RETURN), (''var'', VAR),
     (''true'', TRUE), (''false'', FALSE), (''null'', NULL_TOKEN), (''break'', BREAK)]"

record Lexer =
  m_source :: string
  m_current :: nat
  m_start :: nat
  m_line :: "64 word"
  m_column :: "64 word"
  m_tokenBuffer :: "Token list"

definition Lexer_new :: "string \<Rightarrow> Lexer" where
  "Lexer_new src =
     \<lparr>m_source = src, m_current = 0, m_start = 0, m_line = 1, m_column = 1, m_tokenBuffer = []\<rparr>"

definition isAtEnd :: "Lexer \<Rightarrow> bool" where
  "isAtEnd l = (m_current l \<ge> length (m_source l))"

text \<open>Indexing a \<^verbatim>\<open>std::string\<close> at its length yields the terminating NUL.\<close>

definition source_at :: "Lexer \<Rightarrow> nat \<Rightarrow> char" where
  "source_at l i = (if i < length (m_source l) then m_source l ! i else NUL)"

definition advance :: "Lexer \<Rightarrow> char \<times> Lexer" where
  "advance l =
     (let c = source_at l (m_current l);
          l1 = l\<lparr>m_current := m_current l + 1\<rparr>
      in if c = NEWLINE then (c, l1\<lparr>m_line := m_line l + 1, m_column := 1\<rparr>)
         else (c, l1\<lparr>m_column := m_column l + 1\<rparr>))"

definition match :: "char \<Rightarrow> Lexer \<Rightarrow> bool \<times> Lexer" where
  "match expected l =
     (if isAtEnd l \<or> source_at l (m_current l) \<noteq> expected then (False, l)
      else (True, l\<lparr>m_current := m_current l + 1, m_column := m_column l + 1\<rparr>))"

definition peek :: "Lexer \<Rightarrow> char" where
  "peek l = (if isAtEnd l then NUL else source_at l (m_current l))"

definition peekNext :: "Lexer \<Rightarrow> char" where
  "peekNext l = (if m_current l + 1 \<ge> length (m_source l) then NUL else source_at l (m_current l + 1))"

function skipComment :: "Lexer \<Rightarrow> Lexer" where
  "skipComment l =
     (if peek l \<noteq> NEWLINE \<and> \<not> isAtEnd l then skipComment (snd (advance l)) else l)"
  by pat_completeness auto
termination
  by (relation "measure (\<lambda>l. length (m_source l) - m_current l)")
     (auto simp: advance_def isAtEnd_def Let_def)

declare skipComment.simps [simp del]

lemma skipComment_source: "m_source (skipComment l) = m_source l"
  by (induction l rule: skipComment.induct)
     (subst skipComment.simps, auto simp: advance_def Let_def)

lemma skipComment_current: "m_current l \<le> m_current (skipComment l)"
proof (induction l rule: skipComment.induct)
  case (1 l)
  show ?case
  proof (cases "peek l \<noteq> NEWLINE \<and> \<not> isAtEnd l")
    case True
    with 1 have "m_current (snd (advance l)) \<le> m_current (skipComment (snd (advance l)))"
      by simp
    moreover have "m_current l < m_current (snd (advance l))"
      by (simp add: advance_def Let_def)
    ultimately show ?thesis
      using True by (subst skipComment.simps) simp
  next
    case False
    then show ?thesis by (subst skipComment.simps) auto
  qed
qed

lemma skipComment_progress:
  assumes "\<not> isAtEnd l" "peek l \<noteq> NEWLINE"
  shows "m_current l < m_current (skipComment l)"
proof -
  have "m_current l < m_current (snd (advance l))"
    by (simp add: advance_def Let_def)
  also have "\<dots> \<le> m_current (skipComment (snd (advance l)))"
    by (rule skipComment_current)
  finally show ?thesis
    using assms by (subst skipComment.simps) simp
qed

function skipWhitespace :: "Lexer \<Rightarrow> Lexer" where
  "skipWhitespace l =
     (let c = peek l in
      if c = CHR '' '' \<or> c = CR \<or> c = TAB then skipWhitespace (snd (advance l))
      else if c = NEWLINE then skipWhitespace (snd (advance l))
      else if c = CHR ''/'' then
        (if peekNext l = CHR ''/'' then skipWhitespace (skipComment l) else l)
      else l)"
  by pat_completeness auto
termination
proof (relation "measure (\<lambda>l. length (m_source l) - m_current l)", goal_cases)
  case 1
  show ?case by simp
next
  case (2 l c)
  then have "\<not> isAtEnd l"
    by (auto simp: peek_def NUL_def CR_def TAB_def split: if_splits)
  then show ?case
    by (simp add: advance_def isAtEnd_def Let_def)
next
  case (3 l c)
  then have "\<not> isAtEnd l"
    by (auto simp: peek_def NUL_def NEWLINE_def split: if_splits)
  then show ?case
    by (simp add: advance_def isAtEnd_def Let_def)
next
  case (4 l c)
  then have a: "\<not> isAtEnd l" and b: "peek l \<noteq> NEWLINE"
    by (auto simp: peek_def NUL_def NEWLINE_def split: if_splits)
  from skipComment_progress [OF a b] a show ?case
    by (simp add: isAtEnd_def skipComment_source)
qed

declare skipWhitespace.simps [simp del]


text \<open>\<^verbatim>\<open>source_.substr(pos, n)\<close>.\<close>

definition substr :: "string \<Rightarrow> nat \<Rightarrow> nat \<Rightarrow> string" where
  "substr s pos n = take n (drop pos s)"

definition identifierType :: "Lexer \<Rightarrow> TokenType" where
  "identifierType l =
     (let text = substr (m_source l) (m_start l) (m_current l - m_start l)
      in case map_of keywordTable text of Some ty \<Rightarrow> ty | None \<Rightarrow> IDENTIFIER)"

text \<open>The loop \<^verbatim>\<open>while (std::isalnum(peek()) || peek() == '_') advance();\<close>\<close>

function scanIdentifierChars :: "Lexer \<Rightarrow> Lexer" where
  "scanIdentifierChars l =
     (if isalnum (peek l) \<or> peek l = CHR ''_'' then scanIdentifierChars (snd (advance l)) else l)"
  by pat_completeness auto
termination
proof (relation "measure (\<lambda>l. length (m_source l) - m_current l)", goal_cases)
  case 1
  show ?case by simp
next
  case (2 l)
  then have "\<not> isAtEnd l"
    by (auto simp: peek_def NUL_def isalnum_def isalpha_def isdigit_def split: if_splits)
  then show ?case
    by (simp add: advance_def isAtEnd_def Let_def)
qed

declare scanIdentifierChars.simps [simp del]

definition scanIdentifier :: "Lexer \<Rightarrow> Token \<times> Lexer" where
  "scanIdentifier l0 =
     (let l = scanIdentifierChars l0;
          text = substr (m_source l) (m_start l) (m_current l - m_start l);
          ty = identifierType l
      in if text = ''loop'' \<and> peek l = CHR ''('' then
           (let loopToken = Token4 LOOP text (m_line l) (m_column l - of_nat (length text));
                l1 = snd (advance l);
                l2 = l1\<lparr>m_tokenBuffer :=
                       m_tokenBuffer l1 @ [Token4 LPAREN ''('' (m_line l1) (m_column l1 - 1)]\<rparr>;
                l3 = l2\<lparr>m_start := m_current l2\<rparr>
            in (loopToken, l3))
         else if ty = IDENTIFIER then
           (Token5 ty (TVString text) text (m_line l) (m_column l - of_nat (length text)), l)
         else if ty = TRUE then
           (Token5 ty (TVBool True) text (m_line l) (m_column l - of_nat (length text)), l)
         else if ty = FALSE then
           (Token5 ty (TVBool False) text (m_line l) (m_column l - of_nat (length text)), l)
         else (Token4 ty text (m_line l) (m_column l - of_nat (length text)), l))"

text \<open>The loop \<^verbatim>\<open>while (std::isdigit(peek())) advance();\<close>\<close>

function scanDigits :: "Lexer \<Rightarrow> Lexer" where
  "scanDigits l = (if isdigit (peek l) then scanDigits (snd (advance l)) else l)"
  by pat_completeness auto
termination
proof (relation "measure (\<lambda>l. length (m_source l) - m_current l)", goal_cases)
  case 1
  show ?case by simp
next
  case (2 l)
  then have "\<not> isAtEnd l"
    by (auto simp: peek_def NUL_def isdigit_def split: if_splits)
  then show ?case
    by (simp add: advance_def isAtEnd_def Let_def)
qed

declare scanDigits.simps [simp del]

text \<open>
  \<^verbatim>\<open>std::stod\<close> on the text of a number token, which is one or more digits with an
  optional fraction of a dot and one or more digits. The value is the number written; the
  code rounds it to a double, and a number of more than 308 digits before the dot, for
  which \<^verbatim>\<open>std::stod\<close> throws, is not a number of the model.
\<close>

definition stod_literal :: "string \<Rightarrow> real" where
  "stod_literal s =
     (let ip = takeWhile isdigit s;
          fp = takeWhile isdigit (drop (length ip + 1) s)
      in real (digits_val 0 ip) + real (digits_val 0 fp) / 10 ^ length fp)"

definition scanNumber :: "Lexer \<Rightarrow> Token \<times> Lexer" where
  "scanNumber l0 =
     (let l1 = scanDigits l0;
          l2 = (if peek l1 = CHR ''.'' \<and> isdigit (peekNext l1)
                then scanDigits (snd (advance l1)) else l1);
          numberStr = substr (m_source l2) (m_start l2) (m_current l2 - m_start l2)
      in (Token5 NUMBER (TVDouble (stod_literal numberStr)) numberStr (m_line l2)
            (m_column l2 - of_nat (length numberStr)), l2))"

text \<open>The loop of \<^verbatim>\<open>scanString\<close>, which counts a line break itself before
  \<^verbatim>\<open>advance\<close> counts it again.\<close>

function scanStringChars :: "Lexer \<Rightarrow> Lexer" where
  "scanStringChars l =
     (if peek l \<noteq> DQUOTE \<and> \<not> isAtEnd l then
        scanStringChars
          (snd (advance (if peek l = NEWLINE then l\<lparr>m_line := m_line l + 1, m_column := 1\<rparr> else l)))
      else l)"
  by pat_completeness auto
termination
  by (relation "measure (\<lambda>l. length (m_source l) - m_current l)")
     (auto simp: advance_def isAtEnd_def Let_def)

declare scanStringChars.simps [simp del]

definition scanString :: "Lexer \<Rightarrow> Token \<times> Lexer" where
  "scanString l0 =
     (let l = scanStringChars l0
      in if isAtEnd l then (Token4 ERROR ''Unterminated string'' (m_line l) (m_column l), l)
         else
           (let l1 = snd (advance l);
                v = substr (m_source l1) (m_start l1 + 1) (m_current l1 - m_start l1 - 2)
            in (Token5 STRING (TVString v) v (m_line l1) (m_column l1 - of_nat (length v) - 2), l1)))"

text \<open>A token of one character.\<close>

definition single :: "TokenType \<Rightarrow> string \<Rightarrow> Lexer \<Rightarrow> Token \<times> Lexer" where
  "single ty lx l = (Token4 ty lx (m_line l) (m_column l - 1), l)"

text \<open>\<^verbatim>\<open>if (match(expected)) return Token(ty, lx, line_, column_ - 2); else\<close> what
  the other branch returns.\<close>

definition matchThen ::
  "char \<Rightarrow> TokenType \<Rightarrow> string \<Rightarrow> (Lexer \<Rightarrow> Token \<times> Lexer) \<Rightarrow> Lexer \<Rightarrow> Token \<times> Lexer" where
  "matchThen expected ty lx otherwise l =
     (let r = match expected l; l1 = snd r
      in if fst r then (Token4 ty lx (m_line l1) (m_column l1 - 2), l1) else otherwise l1)"

definition expectedAfter :: "string \<Rightarrow> Lexer \<Rightarrow> Token \<times> Lexer" where
  "expectedAfter c l =
     (Token4 ERROR (''Expected '' @ [SQUOTE] @ c @ [SQUOTE] @ '' after '' @ [SQUOTE] @ c @ [SQUOTE])
        (m_line l) (m_column l - 1), l)"

definition scanToken :: "Lexer \<Rightarrow> Token \<times> Lexer" where
  "scanToken l0 =
     (let r = advance l0; c = fst r; l = snd r in
      if isalpha c \<or> c = CHR ''_'' then scanIdentifier l
      else if isdigit c then scanNumber l
      else if c = CHR ''('' then single LPAREN ''('' l
      else if c = CHR '')'' then single RPAREN '')'' l
      else if c = CHR ''{'' then single LBRACE ''{'' l
      else if c = CHR ''}'' then single RBRACE ''}'' l
      else if c = CHR ''['' then single LBRACKET ''['' l
      else if c = CHR '']'' then single RBRACKET '']'' l
      else if c = CHR '';'' then single SEMICOLON '';'' l
      else if c = CHR '','' then single COMMA '','' l
      else if c = CHR ''.'' then single DOT ''.'' l
      else if c = CHR ''-'' then single MINUS ''-'' l
      else if c = CHR ''+'' then single PLUS ''+'' l
      else if c = CHR ''/'' then single DIVIDE ''/'' l
      else if c = CHR ''*'' then single MULTIPLY ''*'' l
      else if c = CHR ''%'' then single MODULO ''%'' l
      else if c = CHR ''!'' then matchThen (CHR ''='') NOT_EQUALS ''!='' (single BANG ''!'') l
      else if c = CHR ''='' then matchThen (CHR ''='') EQUALS ''=='' (single ASSIGN ''='') l
      else if c = CHR ''<'' then matchThen (CHR ''='') LESS_EQ ''<='' (single LESS ''<'') l
      else if c = CHR ''>'' then matchThen (CHR ''='') GREATER_EQ ''>='' (single GREATER ''>'') l
      else if c = CHR ''&'' then matchThen (CHR ''&'') AND ''&&'' (expectedAfter ''&'') l
      else if c = CHR ''|'' then matchThen (CHR ''|'') OR ''||'' (expectedAfter ''|'') l
      else if c = DQUOTE then scanString l
      else single ERROR ''Unexpected character'' l)"

definition nextToken :: "Lexer \<Rightarrow> Token \<times> Lexer" where
  "nextToken l0 =
     (let l1 = skipWhitespace l0;
          l = l1\<lparr>m_start := m_current l1\<rparr>
      in if isAtEnd l then (Token4 EOF_TOKEN ''EOF'' (m_line l) (m_column l), l)
         else (case m_tokenBuffer l of
                 t # ts \<Rightarrow> (t, l\<lparr>m_tokenBuffer := ts\<rparr>)
               | [] \<Rightarrow> scanToken l))"

section \<open>The syntax tree (parser.hpp)\<close>

text \<open>
  One constructor for each node class. An owning pointer that the parser always fills is
  the child itself, one that may stay null is an \<^typ>\<open>'a option\<close>; a
  \<^verbatim>\<open>BlockStatement\<close> child is the list of its statements. The body of a
  \<^verbatim>\<open>FunctionDeclaration\<close> stays null for a declaration that ends with a semicolon.
\<close>

datatype Expression =
    BinaryExpression TokenType Expression Expression
  | UnaryExpression TokenType Expression
  | Identifier string
  | Literal TokenValue
  | CallExpression Expression "Expression list"
  | ArrayExpression "Expression list"
  | ArrayAccessExpression Expression Expression
  | PropertyAccessExpression Expression string

datatype Statement =
    BlockStatement "Statement list"
  | VariableDeclaration string "Expression option"
  | FunctionDeclaration string "string list" "Statement list option"
  | LoopStatement "Statement option" "Expression option" "Expression option" "Statement list"
  | IfStatement Expression "Statement list" "Statement list option"
  | PrintStatement bool "Expression list" string
  | ReturnStatement "Expression option"
  | BreakStatement
  | ExpressionStatement Expression

section \<open>Values (interpreter.hpp, interpreter.cpp)\<close>

text \<open>
  \<^verbatim>\<open>Value\<close> is a tagged record of which only the field selected by \<^verbatim>\<open>type_\<close> is
  ever read, so it is a datatype with one constructor for each \<^verbatim>\<open>Value::Type\<close>:
  \<^verbatim>\<open>NULL_VALUE\<close>, \<^verbatim>\<open>NUMBER\<close> (the double), \<^verbatim>\<open>INTEGER\<close>, \<^verbatim>\<open>STRING\<close>,
  \<^verbatim>\<open>BOOLEAN\<close>, \<^verbatim>\<open>ARRAY\<close>, \<^verbatim>\<open>FUNCTION\<close> (name, parameters, body) and
  \<^verbatim>\<open>NATIVE_FUNCTION\<close>. An \<^verbatim>\<open>int\<close> is a 32-bit word read in two's complement;
  overflowing arithmetic wraps around. A \<^verbatim>\<open>double\<close> is the real number it denotes.
\<close>

datatype Value =
    VNull
  | VNumber real
  | VInteger "32 word"
  | VString string
  | VBoolean bool
  | VArray "Value list"
  | VFunction string "string list" "Statement list"
  | VNativeFunction

definition isNull :: "Value \<Rightarrow> bool" where
  "isNull v = (case v of VNull \<Rightarrow> True | _ \<Rightarrow> False)"

definition isInteger :: "Value \<Rightarrow> bool" where
  "isInteger v = (case v of VInteger _ \<Rightarrow> True | _ \<Rightarrow> False)"

definition isDouble :: "Value \<Rightarrow> bool" where
  "isDouble v = (case v of VNumber _ \<Rightarrow> True | _ \<Rightarrow> False)"

definition isNumber :: "Value \<Rightarrow> bool" where
  "isNumber v = (isDouble v \<or> isInteger v)"

definition isString :: "Value \<Rightarrow> bool" where
  "isString v = (case v of VString _ \<Rightarrow> True | _ \<Rightarrow> False)"

definition isBoolean :: "Value \<Rightarrow> bool" where
  "isBoolean v = (case v of VBoolean _ \<Rightarrow> True | _ \<Rightarrow> False)"

definition isArray :: "Value \<Rightarrow> bool" where
  "isArray v = (case v of VArray _ \<Rightarrow> True | _ \<Rightarrow> False)"

definition isFunction :: "Value \<Rightarrow> bool" where
  "isFunction v = (case v of VFunction _ _ _ \<Rightarrow> True | _ \<Rightarrow> False)"

definition isAnyFunction :: "Value \<Rightarrow> bool" where
  "isAnyFunction v = (case v of VFunction _ _ _ \<Rightarrow> True | VNativeFunction \<Rightarrow> True | _ \<Rightarrow> False)"

subsection \<open>Conversions between numbers and text\<close>

definition INT_MIN :: int where "INT_MIN = - (2 ^ 31)"
definition INT_MAX :: int where "INT_MAX = 2 ^ 31 - 1"

text \<open>\<^verbatim>\<open>static_cast<double>(int)\<close>.\<close>

definition int_to_double :: "32 word \<Rightarrow> real" where
  "int_to_double i = real_of_int (sint i)"

text \<open>
  \<^verbatim>\<open>static_cast<int>(double)\<close> drops the fraction. A value outside the range of
  \<^verbatim>\<open>int\<close> has no defined result in C++; the model takes what the conversion
  instruction of x86-64 yields there, \<^verbatim>\<open>INT_MIN\<close>.
\<close>

definition trunc_double :: "real \<Rightarrow> int" where
  "trunc_double d = (if 0 \<le> d then \<lfloor>d\<rfloor> else \<lceil>d\<rceil>)"

definition static_cast_int :: "real \<Rightarrow> 32 word" where
  "static_cast_int d =
     (if INT_MIN \<le> trunc_double d \<and> trunc_double d \<le> INT_MAX then word_of_int (trunc_double d)
      else word_of_int INT_MIN)"

text \<open>
  The test \<^verbatim>\<open>result == static_cast<int>(result)\<close> followed by the choice between
  \<^verbatim>\<open>Value(static_cast<int>(result))\<close> and \<^verbatim>\<open>Value(result)\<close>, which the arithmetic
  operators and \<^verbatim>\<open>evaluateLiteral\<close> all end with.
\<close>

definition demote :: "real \<Rightarrow> Value" where
  "demote result =
     (if result = int_to_double (static_cast_int result) then VInteger (static_cast_int result)
      else VNumber result)"

text \<open>The character of a decimal digit.\<close>

definition digit_char :: "nat \<Rightarrow> char" where
  "digit_char n = ''0123456789'' ! n"

fun nat_to_string :: "nat \<Rightarrow> string" where
  "nat_to_string n = (if n < 10 then [digit_char n] else nat_to_string (n div 10) @ [digit_char (n mod 10)])"

declare nat_to_string.simps [simp del]

text \<open>\<^verbatim>\<open>std::to_string(int)\<close>.\<close>

definition to_string_int :: "32 word \<Rightarrow> string" where
  "to_string_int i = (if sint i < 0 then ''-'' @ nat_to_string (nat (- sint i)) else nat_to_string (nat (sint i)))"

text \<open>
  \<^verbatim>\<open>std::to_string(double)\<close> prints as \<^verbatim>\<open>printf("%f")\<close> does: the integral part and
  six decimals, the last one rounded (a tie goes to the even digit).
\<close>

definition round_half_even :: "real \<Rightarrow> int" where
  "round_half_even y =
     (let f = \<lfloor>y\<rfloor>; d = y - real_of_int f
      in if d < 1 / 2 then f else if 1 / 2 < d then f + 1 else if even f then f else f + 1)"

definition pad6 :: "string \<Rightarrow> string" where
  "pad6 ds = replicate (6 - length ds) (CHR ''0'') @ ds"

definition to_string_double :: "real \<Rightarrow> string" where
  "to_string_double d =
     (let scaled = nat (round_half_even (\<bar>d\<bar> * 1000000))
      in (if d < 0 then ''-'' else []) @ nat_to_string (scaled div 1000000) @ ''.''
           @ pad6 (nat_to_string (scaled mod 1000000)))"

text \<open>
  \<^verbatim>\<open>std::stoi(s, &pos)\<close>: leading white space, an optional sign, decimal digits.
  \<^const>\<open>None\<close> stands for the exception it throws when there is no digit
  (\<^verbatim>\<open>std::invalid_argument\<close>) or when the number does not fit an \<^verbatim>\<open>int\<close>
  (\<^verbatim>\<open>std::out_of_range\<close>); otherwise the result is the number and \<^verbatim>\<open>pos\<close>.
\<close>

definition split_sign :: "string \<Rightarrow> bool \<times> string" where
  "split_sign s =
     (case s of
        c # cs \<Rightarrow> if c = CHR ''-'' then (True, cs) else if c = CHR ''+'' then (False, cs) else (False, s)
      | [] \<Rightarrow> (False, s))"

definition stoi :: "string \<Rightarrow> (32 word \<times> nat) option" where
  "stoi s =
     (let body = dropWhile isspace s;
          neg = fst (split_sign body);
          rest = snd (split_sign body);
          ds = takeWhile isdigit rest;
          v = (if neg then - int (digits_val 0 ds) else int (digits_val 0 ds))
      in if ds = [] then None
         else if v < INT_MIN \<or> INT_MAX < v then None
         else Some (word_of_int v, length s - length rest + length ds))"

text \<open>
  \<^verbatim>\<open>std::stod(s)\<close>: leading white space, an optional sign, then a decimal number
  (digits with an optional fraction and an optional exponent) or a hexadecimal one
  (\<^verbatim>\<open>0x\<close>, hexadecimal digits with an optional fraction, an optional binary exponent).
  \<^const>\<open>None\<close> stands for \<^verbatim>\<open>std::invalid_argument\<close>, and for \<^verbatim>\<open>std::out_of_range\<close>, which
  \<^verbatim>\<open>stod\<close> throws when \<^verbatim>\<open>strtod\<close> reports a number too large for a double (one that
  rounds to infinity) or, other than zero, too small for a normal double. The spellings of
  infinity and NaN are not numbers of the model; \<^verbatim>\<open>asNumber\<close> calls \<^verbatim>\<open>stod\<close> only after
  \<^verbatim>\<open>stoi\<close> has read a digit, where they cannot occur. A number in range is the number
  written; the code rounds it to a double.
\<close>

definition out_of_range :: "real \<Rightarrow> bool" where
  "out_of_range d \<longleftrightarrow> 2 ^ 1024 - 2 ^ 970 \<le> \<bar>d\<bar> \<or> (d \<noteq> 0 \<and> \<bar>d\<bar> < 1 / 2 ^ 1022)"

definition ishexdigit :: "char \<Rightarrow> bool" where
  "ishexdigit c =
     (let n = (of_char c :: nat) in isdigit c \<or> (65 \<le> n \<and> n \<le> 70) \<or> (97 \<le> n \<and> n \<le> 102))"

definition hexdigit_val :: "char \<Rightarrow> nat" where
  "hexdigit_val c =
     (let n = (of_char c :: nat) in if isdigit c then n - 48 else if n \<le> 70 then n - 55 else n - 87)"

fun hexdigits_val :: "nat \<Rightarrow> string \<Rightarrow> nat" where
  "hexdigits_val acc [] = acc"
| "hexdigits_val acc (c # cs) = hexdigits_val (acc * 16 + hexdigit_val c) cs"

text \<open>An exponent part: the marker, an optional sign and at least one digit; 0 when the
  text does not start with a complete exponent.\<close>

definition exponent_of :: "char \<Rightarrow> char \<Rightarrow> string \<Rightarrow> int" where
  "exponent_of lower upper s =
     (case s of
        c # cs \<Rightarrow>
          if c = lower \<or> c = upper then
            (let neg = fst (split_sign cs); ds = takeWhile isdigit (snd (split_sign cs))
             in if ds = [] then 0 else if neg then - int (digits_val 0 ds) else int (digits_val 0 ds))
          else 0
      | [] \<Rightarrow> 0)"

definition scale :: "real \<Rightarrow> real \<Rightarrow> int \<Rightarrow> real" where
  "scale m b e = (if 0 \<le> e then m * b ^ nat e else m / b ^ nat (- e))"

definition stod_decimal :: "string \<Rightarrow> real option" where
  "stod_decimal s =
     (let ip = takeWhile isdigit s;
          r1 = drop (length ip) s;
          fp = (case r1 of c # cs \<Rightarrow> if c = CHR ''.'' then takeWhile isdigit cs else [] | [] \<Rightarrow> []);
          r2 = (case r1 of c # cs \<Rightarrow> if c = CHR ''.'' then drop (length fp) cs else r1 | [] \<Rightarrow> r1);
          m = real (digits_val 0 ip) + real (digits_val 0 fp) / 10 ^ length fp
      in if ip = [] \<and> fp = [] then None
         else Some (scale m 10 (exponent_of (CHR ''e'') (CHR ''E'') r2)))"

definition stod_hex :: "string \<Rightarrow> real option" where
  "stod_hex s =
     (let ip = takeWhile ishexdigit s;
          r1 = drop (length ip) s;
          fp = (case r1 of c # cs \<Rightarrow> if c = CHR ''.'' then takeWhile ishexdigit cs else [] | [] \<Rightarrow> []);
          r2 = (case r1 of c # cs \<Rightarrow> if c = CHR ''.'' then drop (length fp) cs else r1 | [] \<Rightarrow> r1);
          m = real (hexdigits_val 0 ip) + real (hexdigits_val 0 fp) / 16 ^ length fp
      in if ip = [] \<and> fp = [] then None
         else Some (scale m 2 (exponent_of (CHR ''p'') (CHR ''P'') r2)))"

definition stod :: "string \<Rightarrow> real option" where
  "stod s =
     (let neg = fst (split_sign (dropWhile isspace s));
          rest = snd (split_sign (dropWhile isspace s));
          r = (case rest of
                 c # x # cs \<Rightarrow>
                   if c = CHR ''0'' \<and> (x = CHR ''x'' \<or> x = CHR ''X'') then
                     (case stod_hex cs of Some d \<Rightarrow> Some d | None \<Rightarrow> stod_decimal rest)
                   else stod_decimal rest
               | _ \<Rightarrow> stod_decimal rest)
      in case r of
           None \<Rightarrow> None
         | Some d \<Rightarrow> if out_of_range d then None else Some (if neg then - d else d))"

subsection \<open>Coercions\<close>

definition asNumber :: "Value \<Rightarrow> real" where
  "asNumber v =
     (case v of
        VNumber d \<Rightarrow> d
      | VInteger i \<Rightarrow> int_to_double i
      | VString s \<Rightarrow>
          (case stoi s of
             None \<Rightarrow> 0
           | Some r \<Rightarrow>
               if snd r = length s then int_to_double (fst r)
               else (case stod s of Some d \<Rightarrow> d | None \<Rightarrow> 0))
      | VBoolean b \<Rightarrow> (if b then 1 else 0)
      | VNull \<Rightarrow> 0
      | VArray xs \<Rightarrow> real (length xs)
      | _ \<Rightarrow> 0)"

definition asBoolean :: "Value \<Rightarrow> bool" where
  "asBoolean v =
     (case v of
        VBoolean b \<Rightarrow> b
      | VInteger i \<Rightarrow> i \<noteq> 0
      | VNumber d \<Rightarrow> d \<noteq> 0
      | VString s \<Rightarrow> s \<noteq> []
      | VNull \<Rightarrow> False
      | VArray xs \<Rightarrow> xs \<noteq> []
      | _ \<Rightarrow> True)"

definition asArray :: "Value \<Rightarrow> Value list" where
  "asArray v = (case v of VArray xs \<Rightarrow> xs | _ \<Rightarrow> [v])"

definition getArraySize :: "Value \<Rightarrow> 32 word" where
  "getArraySize v = (case v of VArray xs \<Rightarrow> of_nat (length xs) | _ \<Rightarrow> 1)"

subsection \<open>Text of a value\<close>

fun join :: "string \<Rightarrow> string list \<Rightarrow> string" where
  "join sep [] = []"
| "join sep [x] = x"
| "join sep (x # y # ys) = x @ sep @ join sep (y # ys)"

text \<open>
  \<^verbatim>\<open>Value::toString\<close>. The elements of an array are printed by the loop of the
  \<^verbatim>\<open>ARRAY\<close> case, which calls \<^verbatim>\<open>toString\<close> again only for an element that is an
  array and prints a function element as \<^verbatim>\<open><function>\<close>.
\<close>

fun toString :: "Value \<Rightarrow> string" where
  "toString VNull = ''null''"
| "toString (VNumber d) = to_string_double d"
| "toString (VInteger i) = to_string_int i"
| "toString (VString s) = s"
| "toString (VBoolean b) = (if b then ''true'' else ''false'')"
| "toString (VArray xs) =
     ''['' @ join '', ''
       (map (\<lambda>e. case e of
                 VArray ys \<Rightarrow> toString e
               | VInteger i \<Rightarrow> to_string_int i
               | VNumber d \<Rightarrow> to_string_double d
               | VString s \<Rightarrow> s
               | VBoolean b \<Rightarrow> (if b then ''true'' else ''false'')
               | VNull \<Rightarrow> ''null''
               | VFunction f ps body \<Rightarrow> ''<function>''
               | VNativeFunction \<Rightarrow> ''<function>'') xs) @ '']''"
| "toString (VFunction f ps body) = ''<function '' @ f @ ''>''"
| "toString VNativeFunction = ''<native function>''"

subsection \<open>Elements and properties\<close>

text \<open>
  The size of a vector is compared as an \<^verbatim>\<open>int\<close>. A vector of values never has
  \<open>2\<^sup>3\<^sup>1\<close> elements (one \<^verbatim>\<open>Value\<close> takes more than a hundred bytes), so the cast of
  its size is the size. The size of a string is cast in the same way; the strings of the
  model are shorter than \<open>2\<^sup>3\<^sup>1\<close> characters.
\<close>

definition getArrayElement :: "Value \<Rightarrow> 32 word \<Rightarrow> Value" where
  "getArrayElement v index =
     (case v of
        VArray xs \<Rightarrow>
          if sint index < 0 \<or> int (length xs) \<le> sint index then VNull
          else xs ! nat (sint index)
      | VString s \<Rightarrow>
          if index = 0 then v
          else if 0 < sint index \<and> sint index < int (length s) then VString [s ! nat (sint index)]
          else VNull
      | _ \<Rightarrow> if index = 0 then v else VNull)"

text \<open>\<^verbatim>\<open>array_.resize(n)\<close> on a shorter vector appends null values.\<close>

definition resize :: "nat \<Rightarrow> Value list \<Rightarrow> Value list" where
  "resize n xs = take n xs @ replicate (n - length xs) VNull"

text \<open>
  \<^verbatim>\<open>Value::setArrayElement\<close> changes the value in place; the model returns the value
  afterwards. The first step makes the value an array: of the string itself for a string,
  empty for any other value that is not an array.
\<close>

definition setArrayElement :: "32 word \<Rightarrow> Value \<Rightarrow> Value \<Rightarrow> Value" where
  "setArrayElement index x v =
     (let arr = (case v of VString s \<Rightarrow> [VString s] | VArray xs \<Rightarrow> xs | _ \<Rightarrow> [])
      in if sint index < 0 then VArray arr
         else if int (length arr) \<le> sint index then
           (if 1000 < sint index then VArray arr
            else VArray ((resize (nat (sint index) + 1) arr)[nat (sint index) := x]))
         else VArray (arr[nat (sint index) := x]))"

definition getProperty :: "Value \<Rightarrow> string \<Rightarrow> Value" where
  "getProperty v name =
     (if name = ''length'' then
        (case v of
           VArray xs \<Rightarrow> VInteger (of_nat (length xs))
         | VString s \<Rightarrow> VInteger (of_nat (length s))
         | _ \<Rightarrow> VInteger 1)
      else VNull)"

subsection \<open>Operators\<close>

text \<open>
  The fields of a \<^verbatim>\<open>Value\<close> that the operators read after testing the type. A field
  that the constructor of another type of value leaves at its default reads as the default.
\<close>

definition integer_of :: "Value \<Rightarrow> 32 word" where
  "integer_of v = (case v of VInteger i \<Rightarrow> i | _ \<Rightarrow> 0)"

definition string_of :: "Value \<Rightarrow> string" where
  "string_of v = (case v of VString s \<Rightarrow> s | _ \<Rightarrow> [])"

definition boolean_of :: "Value \<Rightarrow> bool" where
  "boolean_of v = (case v of VBoolean b \<Rightarrow> b | _ \<Rightarrow> False)"

definition array_of :: "Value \<Rightarrow> Value list" where
  "array_of v = (case v of VArray xs \<Rightarrow> xs | _ \<Rightarrow> [])"

text \<open>
  C++ division and remainder of \<^verbatim>\<open>int\<close> round towards zero. Both are undefined for the
  divisor 0 and for \<^verbatim>\<open>INT_MIN\<close> by \<open>-1\<close>, whose quotient is not an \<^verbatim>\<open>int\<close>; the division
  instruction of x86-64, which computes both, then raises \<^verbatim>\<open>SIGFPE\<close> and the process is
  killed. \<^const>\<open>None\<close> stands for that.
\<close>

definition int_undefined :: "32 word \<Rightarrow> 32 word \<Rightarrow> bool" where
  "int_undefined x y \<longleftrightarrow> sint y = 0 \<or> (sint x = INT_MIN \<and> sint y = - 1)"

definition int_div :: "32 word \<Rightarrow> 32 word \<Rightarrow> 32 word option" where
  "int_div x y = (if int_undefined x y then None else Some (word_of_int (sint x sdiv sint y)))"

definition int_mod :: "32 word \<Rightarrow> 32 word \<Rightarrow> 32 word option" where
  "int_mod x y = (if int_undefined x y then None else Some (word_of_int (sint x smod sint y)))"

definition Value_plus :: "Value \<Rightarrow> Value \<Rightarrow> Value" where
  "Value_plus a b =
     (if isInteger a \<and> isInteger b then VInteger (integer_of a + integer_of b)
      else if isNumber a \<and> isNumber b then demote (asNumber a + asNumber b)
      else if isString a \<or> isString b then VString (toString a @ toString b)
      else if isArray a \<and> isArray b then VArray (array_of a @ array_of b)
      else if isNumber a \<or> isNumber b then demote (asNumber a + asNumber b)
      else VString (toString a @ toString b))"

definition Value_minus :: "Value \<Rightarrow> Value \<Rightarrow> Value" where
  "Value_minus a b =
     (if isInteger a \<and> isInteger b then VInteger (integer_of a - integer_of b)
      else demote (asNumber a - asNumber b))"

definition Value_times :: "Value \<Rightarrow> Value \<Rightarrow> Value" where
  "Value_times a b =
     (if isInteger a \<and> isInteger b then VInteger (integer_of a * integer_of b)
      else demote (asNumber a * asNumber b))"

text \<open>
  \<^verbatim>\<open>Value::operator/\<close>. The remainder \<^verbatim>\<open>integer_ % other.integer_\<close> is computed only for
  two Integers, and the Integer quotient only when it is zero; the result is \<^const>\<open>None\<close>
  when one of them is undefined. The quotient of two doubles is the exact quotient in the
  model; the code rounds it to a double.
\<close>

definition Value_divide :: "Value \<Rightarrow> Value \<Rightarrow> Value option" where
  "Value_divide a b =
     (let divisor = asNumber b
      in if divisor = 0 then Some (VInteger 0)
         else if isInteger a \<and> isInteger b then
           (case int_mod (integer_of a) (integer_of b) of
              None \<Rightarrow> None
            | Some remainder \<Rightarrow>
                if remainder = 0 then map_option VInteger (int_div (integer_of a) (integer_of b))
                else Some (demote (asNumber a / divisor)))
         else Some (demote (asNumber a / divisor)))"

text \<open>\<^verbatim>\<open>fmod(x, y)\<close> for \<open>y \<noteq> 0\<close>: what is left of \<open>x\<close> after taking away \<open>y\<close> a whole
  number of times, rounded towards zero.\<close>

definition fmod :: "real \<Rightarrow> real \<Rightarrow> real" where
  "fmod x y = x - real_of_int (trunc_double (x / y)) * y"

definition Value_modulo :: "Value \<Rightarrow> Value \<Rightarrow> Value option" where
  "Value_modulo a b =
     (let divisor = asNumber b
      in if divisor = 0 then Some (VInteger 0)
         else if isInteger a \<and> isInteger b
         then map_option VInteger (int_mod (integer_of a) (integer_of b))
         else Some (demote (fmod (asNumber a) divisor)))"

definition Value_eq :: "Value \<Rightarrow> Value \<Rightarrow> bool" where
  "Value_eq a b =
     (if isNull a \<and> isNull b then True
      else if isNumber a \<and> isNumber b then asNumber a = asNumber b
      else if isString a \<and> isString b then string_of a = string_of b
      else if isBoolean a \<and> isBoolean b then boolean_of a = boolean_of b
      else if (isNumber a \<or> isNumber b) \<and> (isString a \<or> isString b) then asNumber a = asNumber b
      else if isBoolean a \<or> isBoolean b then asBoolean a = asBoolean b
      else if isArray a \<or> isArray b then toString a = toString b
      else False)"

definition Value_ne :: "Value \<Rightarrow> Value \<Rightarrow> bool" where
  "Value_ne a b = (\<not> Value_eq a b)"

definition Value_lt :: "Value \<Rightarrow> Value \<Rightarrow> bool" where
  "Value_lt a b =
     (if isNumber a \<and> isNumber b then asNumber a < asNumber b
      else if isString a \<and> isString b then string_of a < string_of b
      else if (isNumber a \<or> isNumber b) \<and> (isString a \<or> isString b) then asNumber a < asNumber b
      else if isBoolean a \<or> isBoolean b then asNumber a < asNumber b
      else if isArray a \<and> isArray b then length (array_of a) < length (array_of b)
      else toString a < toString b)"

definition Value_le :: "Value \<Rightarrow> Value \<Rightarrow> bool" where
  "Value_le a b =
     (if isNumber a \<and> isNumber b then asNumber a \<le> asNumber b
      else Value_lt a b \<or> Value_eq a b)"

definition Value_gt :: "Value \<Rightarrow> Value \<Rightarrow> bool" where
  "Value_gt a b =
     (if isNumber a \<and> isNumber b then asNumber a > asNumber b
      else \<not> Value_le a b)"

definition Value_ge :: "Value \<Rightarrow> Value \<Rightarrow> bool" where
  "Value_ge a b =
     (if isNumber a \<and> isNumber b then asNumber a \<ge> asNumber b
      else \<not> Value_lt a b)"

definition tokenTypeToString :: "TokenType \<Rightarrow> string" where
  "tokenTypeToString ty =
     (case ty of
        EOF_TOKEN \<Rightarrow> ''EOF'' | ERROR \<Rightarrow> ''ERROR'' | IDENTIFIER \<Rightarrow> ''IDENTIFIER''
      | NUMBER \<Rightarrow> ''NUMBER'' | STRING \<Rightarrow> ''STRING'' | PLUS \<Rightarrow> ''PLUS'' | MINUS \<Rightarrow> ''MINUS''
      | MULTIPLY \<Rightarrow> ''MULTIPLY'' | DIVIDE \<Rightarrow> ''DIVIDE'' | MODULO \<Rightarrow> ''MODULO''
      | ASSIGN \<Rightarrow> ''ASSIGN'' | EQUALS \<Rightarrow> ''EQUALS'' | NOT_EQUALS \<Rightarrow> ''NOT_EQUALS''
      | LESS \<Rightarrow> ''LESS'' | GREATER \<Rightarrow> ''GREATER'' | LESS_EQ \<Rightarrow> ''LESS_EQ''
      | GREATER_EQ \<Rightarrow> ''GREATER_EQ'' | BANG \<Rightarrow> ''BANG'' | AND \<Rightarrow> ''AND'' | OR \<Rightarrow> ''OR''
      | LPAREN \<Rightarrow> ''LPAREN'' | RPAREN \<Rightarrow> ''RPAREN'' | LBRACE \<Rightarrow> ''LBRACE''
      | RBRACE \<Rightarrow> ''RBRACE'' | LBRACKET \<Rightarrow> ''LBRACKET'' | RBRACKET \<Rightarrow> ''RBRACKET''
      | COMMA \<Rightarrow> ''COMMA'' | SEMICOLON \<Rightarrow> ''SEMICOLON'' | DOT \<Rightarrow> ''DOT'' | FUNC \<Rightarrow> ''FUNC''
      | PRINT \<Rightarrow> ''PRINT'' | PRINTLN \<Rightarrow> ''PRINTLN'' | LOOP \<Rightarrow> ''LOOP'' | IF \<Rightarrow> ''IF''
      | ELSE \<Rightarrow> ''ELSE'' | RETURN \<Rightarrow> ''RETURN'' | VAR \<Rightarrow> ''VAR'' | TRUE \<Rightarrow> ''TRUE''
      | FALSE \<Rightarrow> ''FALSE'' | NULL_TOKEN \<Rightarrow> ''NULL'' | BREAK \<Rightarrow> ''BREAK'')"

section \<open>Environments and the state of the interpreter\<close>

text \<open>
  An \<^verbatim>\<open>Environment\<close> is a map \<^verbatim>\<open>values_\<close> and a pointer to the enclosing one, which
  is set when the environment is made and never changed. Values hold no environment, so
  the only pointers to environments are \<^verbatim>\<open>environment_\<close> and the \<^verbatim>\<open>previousEnv\<close>
  locals of the running functions. Every new environment encloses the one that is current
  when it is made, and \<^verbatim>\<open>environment_\<close> is only ever set to such a new environment or
  back to a saved \<^verbatim>\<open>previousEnv\<close>. Hence a saved pointer always points into the chain
  of the current environment, and the state of all environments that can still be reached
  is that chain: the list of the maps from \<^verbatim>\<open>environment_\<close> outwards, innermost first.
  A saved \<^verbatim>\<open>previousEnv\<close> is then the length of its chain, and setting
  \<^verbatim>\<open>environment_\<close> back to it drops the scopes in front of it.

  \<^verbatim>\<open>globals_\<close> is never read after the constructor and is left out.
\<close>

type_synonym Scope = "string \<rightharpoonup> Value"

text \<open>
  What a function of the interpreter can end with instead of a result: the three exception
  classes of interpreter.hpp, any other \<^verbatim>\<open>std::exception\<close> with its message, the
  dereference of a null pointer or an undefined division, which kill the process
  (\<open>Crash\<close>, which no handler catches), and \<open>OutOfFuel\<close>,
  the bound of the model on the depth of the evaluation, which stands for an execution
  that is still running and is passed through every handler untouched.
\<close>

datatype Exception =
    RuntimeError string
  | Return Value
  | Break
  | StdException string
  | Crash
  | OutOfFuel

record Interpreter =
  m_environment :: "Scope list"
  cout :: string
  cerr :: string

text \<open>
  A function of the interpreter takes the state and returns an exception or its result,
  and the state afterwards. \<open>andThen m f\<close> runs \<open>m\<close> and then, unless \<open>m\<close> ended with an
  exception, \<open>f\<close> on its result. \<open>tryCatch m handler\<close> runs \<open>m\<close> and, when it ended with
  an exception of C++, the handler on that exception.
\<close>

type_synonym 'a M = "Interpreter \<Rightarrow> (Exception + 'a) \<times> Interpreter"

definition ret :: "'a \<Rightarrow> 'a M" where
  "ret v = (\<lambda>st. (Inr v, st))"

definition throw :: "Exception \<Rightarrow> 'a M" where
  "throw e = (\<lambda>st. (Inl e, st))"

text \<open>The result of an operator that C++ leaves undefined for some operands.\<close>

definition definedValue :: "Value option \<Rightarrow> Value M" where
  "definedValue r = (case r of None \<Rightarrow> throw Crash | Some v \<Rightarrow> ret v)"

fun continue :: "(Exception + 'a) \<times> Interpreter \<Rightarrow> ('a \<Rightarrow> 'b M) \<Rightarrow> (Exception + 'b) \<times> Interpreter" where
  "continue (Inl e, st) f = (Inl e, st)"
| "continue (Inr v, st) f = f v st"

definition andThen :: "'a M \<Rightarrow> ('a \<Rightarrow> 'b M) \<Rightarrow> 'b M" where
  "andThen m f = (\<lambda>st. continue (m st) f)"

fun handle :: "(Exception + 'a) \<times> Interpreter \<Rightarrow> (Exception \<Rightarrow> 'a M) \<Rightarrow> (Exception + 'a) \<times> Interpreter" where
  "handle (Inr v, st) handler = (Inr v, st)"
| "handle (Inl Crash, st) handler = (Inl Crash, st)"
| "handle (Inl OutOfFuel, st) handler = (Inl OutOfFuel, st)"
| "handle (Inl e, st) handler = handler e st"

definition tryCatch :: "'a M \<Rightarrow> (Exception \<Rightarrow> 'a M) \<Rightarrow> 'a M" where
  "tryCatch m handler = (\<lambda>st. handle (m st) handler)"

definition getEnvironment :: "Scope list M" where
  "getEnvironment = (\<lambda>st. (Inr (m_environment st), st))"

definition setEnvironment :: "Scope list \<Rightarrow> unit M" where
  "setEnvironment e = (\<lambda>st. (Inr (), st\<lparr>m_environment := e\<rparr>))"

text \<open>\<^verbatim>\<open>auto previousEnv = environment_;\<close> and \<^verbatim>\<open>environment_ = previousEnv;\<close>\<close>

definition saveEnvironment :: "nat M" where
  "saveEnvironment = (\<lambda>st. (Inr (length (m_environment st)), st))"

definition restoreEnvironment :: "nat \<Rightarrow> unit M" where
  "restoreEnvironment previousEnv =
     (\<lambda>st. (Inr (), st\<lparr>m_environment :=
                        drop (length (m_environment st) - previousEnv) (m_environment st)\<rparr>))"

definition cout_write :: "string \<Rightarrow> unit M" where
  "cout_write s = (\<lambda>st. (Inr (), st\<lparr>cout := cout st @ s\<rparr>))"

definition cerr_write :: "string \<Rightarrow> unit M" where
  "cerr_write s = (\<lambda>st. (Inr (), st\<lparr>cerr := cerr st @ s\<rparr>))"

definition endl :: string where
  "endl = [NEWLINE]"

definition undefinedVariable :: "string \<Rightarrow> Exception" where
  "undefinedVariable name = RuntimeError (''Undefined variable '' @ [SQUOTE] @ name @ [SQUOTE])"

text \<open>\<^verbatim>\<open>Environment::define\<close>, \<^verbatim>\<open>get\<close> and \<^verbatim>\<open>assign\<close> on the chain of an
  environment, and on the chain of \<^verbatim>\<open>environment_\<close> (\<open>defineVar\<close>, \<open>getVar\<close>,
  \<open>assignVar\<close>). The last scope of a chain has no enclosing environment.\<close>

fun Environment_define :: "string \<Rightarrow> Value \<Rightarrow> Scope list \<Rightarrow> Scope list" where
  "Environment_define name v [] = []"
| "Environment_define name v (s # enclosing) = s(name \<mapsto> v) # enclosing"

fun Environment_get :: "string \<Rightarrow> Scope list \<Rightarrow> Exception + Value" where
  "Environment_get name [] = Inl (undefinedVariable name)"
| "Environment_get name (s # enclosing) =
     (case s name of Some v \<Rightarrow> Inr v | None \<Rightarrow> Environment_get name enclosing)"

fun Environment_assign :: "string \<Rightarrow> Value \<Rightarrow> Scope list \<Rightarrow> Exception + Scope list" where
  "Environment_assign name v [] = Inl (undefinedVariable name)"
| "Environment_assign name v (s # enclosing) =
     (case s name of
        Some old \<Rightarrow> Inr (s(name \<mapsto> v) # enclosing)
      | None \<Rightarrow>
        (case Environment_assign name v enclosing of
           Inl e \<Rightarrow> Inl e
         | Inr enclosing' \<Rightarrow> Inr (s # enclosing')))"

definition defineVar :: "string \<Rightarrow> Value \<Rightarrow> unit M" where
  "defineVar name v = (\<lambda>st. (Inr (), st\<lparr>m_environment := Environment_define name v (m_environment st)\<rparr>))"

definition getVar :: "string \<Rightarrow> Value M" where
  "getVar name = (\<lambda>st. (Environment_get name (m_environment st), st))"

definition assignVar :: "string \<Rightarrow> Value \<Rightarrow> unit M" where
  "assignVar name v =
     (\<lambda>st. case Environment_assign name v (m_environment st) of
              Inl e \<Rightarrow> (Inl e, st)
            | Inr env' \<Rightarrow> (Inr (), st\<lparr>m_environment := env'\<rparr>))"

definition isTruthy :: "Value \<Rightarrow> bool" where
  "isTruthy v = asBoolean v"

definition evaluateIdentifier :: "string \<Rightarrow> Value M" where
  "evaluateIdentifier name = getVar name"

definition evaluateLiteral :: "TokenValue \<Rightarrow> Value M" where
  "evaluateLiteral v =
     (case v of
        TVDouble num \<Rightarrow> ret (demote num)
      | TVString str \<Rightarrow> ret (VString str)
      | TVBool b \<Rightarrow> ret (VBoolean b))"

text \<open>\<^verbatim>\<open>statement->body->clone()\<close> dereferences the body, which is null for a
  declaration without a block.\<close>

definition executeFunctionDeclaration :: "string \<Rightarrow> string list \<Rightarrow> Statement list option \<Rightarrow> unit M" where
  "executeFunctionDeclaration name parameters body =
     (case body of
        None \<Rightarrow> throw Crash
      | Some stmts \<Rightarrow> defineVar name (VFunction name parameters stmts))"

definition executeBreakStatement :: "unit M" where
  "executeBreakStatement = throw Break"

section \<open>The interpreter (interpreter.cpp)\<close>

text \<open>
  The functions of the interpreter call each other without bound: a loop may run for ever
  and a function of the program may call itself. The model bounds the depth of the calls
  by a number, the fuel. \<open>evaluateExpression\<close> and \<open>executeBlock\<close>, through which every
  cycle of calls passes, take the fuel, end with \<^const>\<open>OutOfFuel\<close> when it is used up,
  and hand one less to what they call. Every other function of the interpreter is written
  once, for any evaluator of expressions \<open>evaluate\<close> and any executor of blocks
  \<open>execute\<close> in place of \<^verbatim>\<open>evaluateExpression\<close> and \<^verbatim>\<open>executeBlock\<close>; the two are
  tied together at the end of this section. The \<^verbatim>\<open>while (true)\<close> of a loop statement
  runs at most as many iterations as there is fuel.
\<close>

type_synonym Evaluate = "Expression \<Rightarrow> Value M"
type_synonym Execute = "Statement list \<Rightarrow> Scope list \<Rightarrow> unit M"

subsection \<open>\<^verbatim>\<open>Value::call\<close>\<close>

text \<open>The loop \<^verbatim>\<open>for (i < parameters_.size()) environment->define(parameters_[i], arguments[i])\<close>
  of \<^verbatim>\<open>Value::call\<close>, which runs once the two lists are known to have the same length.\<close>

fun defineParameters :: "string list \<Rightarrow> Value list \<Rightarrow> Scope list \<Rightarrow> Scope list" where
  "defineParameters (p # ps) (a # as) environment =
     defineParameters ps as (Environment_define p a environment)"
| "defineParameters ps as environment = environment"

definition Value_call :: "Execute \<Rightarrow> Value \<Rightarrow> Value list \<Rightarrow> Value M" where
  "Value_call execute callee arguments =
     (case callee of
        VNativeFunction \<Rightarrow> throw (StdException ''bad_function_call'')
      | VFunction name parameters body \<Rightarrow>
          if length arguments \<noteq> length parameters then
            throw (RuntimeError (''Expected '' @ nat_to_string (length parameters)
                     @ '' arguments but got '' @ nat_to_string (length arguments)))
          else
            andThen getEnvironment (\<lambda>current.
              let environment = defineParameters parameters arguments (Map.empty # current)
              in andThen saveEnvironment (\<lambda>previousEnv.
                 andThen (setEnvironment environment) (\<lambda>_.
                 tryCatch
                   (andThen (execute body environment) (\<lambda>_.
                    andThen (restoreEnvironment previousEnv) (\<lambda>_. ret VNull)))
                   (\<lambda>e. case e of
                           Return v \<Rightarrow> andThen (restoreEnvironment previousEnv) (\<lambda>_. ret v)
                         | _ \<Rightarrow> throw e))))
      | _ \<Rightarrow> throw (RuntimeError ''Can only call functions''))"

subsection \<open>Expressions\<close>

text \<open>The loops \<^verbatim>\<open>for (arg : arguments) push_back(evaluateExpression(arg))\<close>.\<close>

primrec evaluateExpressions :: "Evaluate \<Rightarrow> Expression list \<Rightarrow> Value list M" where
  "evaluateExpressions evaluate [] = ret []"
| "evaluateExpressions evaluate (e # es) =
     andThen (evaluate e) (\<lambda>v.
     andThen (evaluateExpressions evaluate es) (\<lambda>vs. ret (v # vs)))"

definition evaluateBinaryExpression :: "Evaluate \<Rightarrow> TokenType \<Rightarrow> Expression \<Rightarrow> Expression \<Rightarrow> Value M" where
  "evaluateBinaryExpression evaluate op leftExpr rightExpr =
     (if op = IDENTIFIER \<or> op = NUMBER \<or> op = STRING \<or> op = EOF_TOKEN \<or> op = ERROR
      then evaluate leftExpr
      else
        andThen (evaluate leftExpr) (\<lambda>left.
        andThen (evaluate rightExpr) (\<lambda>right.
          case op of
            PLUS \<Rightarrow> ret (Value_plus left right)
          | MINUS \<Rightarrow> ret (Value_minus left right)
          | MULTIPLY \<Rightarrow> ret (Value_times left right)
          | DIVIDE \<Rightarrow> definedValue (Value_divide left right)
          | MODULO \<Rightarrow> definedValue (Value_modulo left right)
          | EQUALS \<Rightarrow> ret (VBoolean (Value_eq left right))
          | NOT_EQUALS \<Rightarrow> ret (VBoolean (Value_ne left right))
          | LESS \<Rightarrow> ret (VBoolean (Value_lt left right))
          | LESS_EQ \<Rightarrow> ret (VBoolean (Value_le left right))
          | GREATER \<Rightarrow> ret (VBoolean (Value_gt left right))
          | GREATER_EQ \<Rightarrow> ret (VBoolean (Value_ge left right))
          | AND \<Rightarrow>
              (let leftTruthy = isTruthy left
               in if \<not> leftTruthy then ret (VBoolean False)
                  else (let rightTruthy = isTruthy right in ret (VBoolean rightTruthy)))
          | OR \<Rightarrow>
              (let leftTruthyOr = isTruthy left
               in if leftTruthyOr then ret (VBoolean True)
                  else (let rightTruthyOr = isTruthy right in ret (VBoolean rightTruthyOr)))
          | ASSIGN \<Rightarrow>
              (case leftExpr of
                 ArrayAccessExpression arrayExpr indexExpr \<Rightarrow>
                   (case arrayExpr of
                      Identifier arrayName \<Rightarrow>
                        andThen (getVar arrayName) (\<lambda>array.
                        andThen (evaluate indexExpr) (\<lambda>indexValue.
                          let rightValue = right;
                              index = static_cast_int (asNumber indexValue)
                          in andThen (assignVar arrayName (setArrayElement index rightValue array))
                               (\<lambda>_. ret rightValue)))
                    | _ \<Rightarrow>
                        throw (RuntimeError ''Cannot assign to an element of a non-variable array''))
               | Identifier name \<Rightarrow>
                   andThen
                     (case rightExpr of
                        BinaryExpression binOp binLeft binRight \<Rightarrow>
                          if binOp = PLUS then
                            andThen (evaluate binLeft) (\<lambda>leftVal.
                            andThen (evaluate binRight) (\<lambda>rightVal.
                              if isNumber leftVal \<and> isNumber rightVal
                              then ret (VNumber (asNumber leftVal + asNumber rightVal))
                              else ret right))
                          else ret right
                      | _ \<Rightarrow> ret right)
                     (\<lambda>rightValue. andThen (assignVar name rightValue) (\<lambda>_. ret rightValue))
               | _ \<Rightarrow> throw (RuntimeError ''Invalid assignment target''))
          | _ \<Rightarrow> throw (RuntimeError (''Unknown binary operator: '' @ tokenTypeToString op)))))"

definition evaluateUnaryExpression :: "Evaluate \<Rightarrow> TokenType \<Rightarrow> Expression \<Rightarrow> Value M" where
  "evaluateUnaryExpression evaluate op expr =
     andThen (evaluate expr) (\<lambda>operand.
       case op of
         MINUS \<Rightarrow> ret (VNumber (- asNumber operand))
       | BANG \<Rightarrow> (let result = \<not> isTruthy operand in ret (VBoolean result))
       | _ \<Rightarrow> throw (RuntimeError (''Unknown unary operator: '' @ tokenTypeToString op)))"

definition evaluateCallExpression :: "Evaluate \<Rightarrow> Execute \<Rightarrow> Expression \<Rightarrow> Expression list \<Rightarrow> Value M" where
  "evaluateCallExpression evaluate execute calleeExpr arguments =
     (case calleeExpr of
        Identifier name \<Rightarrow>
          andThen (getVar name) (\<lambda>callee.
          andThen (evaluateExpressions evaluate arguments) (\<lambda>args.
            Value_call execute callee args))
      | _ \<Rightarrow>
          andThen (evaluate calleeExpr) (\<lambda>callee.
          andThen (evaluateExpressions evaluate arguments) (\<lambda>args.
            Value_call execute callee args)))"

definition evaluateArrayExpression :: "Evaluate \<Rightarrow> Expression list \<Rightarrow> Value M" where
  "evaluateArrayExpression evaluate elements =
     andThen (evaluateExpressions evaluate elements) (\<lambda>vs. ret (VArray vs))"

definition evaluateArrayAccessExpression :: "Evaluate \<Rightarrow> Expression \<Rightarrow> Expression \<Rightarrow> Value M" where
  "evaluateArrayAccessExpression evaluate arrayExpr indexExpr =
     andThen (evaluate arrayExpr) (\<lambda>array.
     andThen (evaluate indexExpr) (\<lambda>indexValue.
       let index = static_cast_int (asNumber indexValue)
       in ret (getArrayElement array index)))"

definition evaluatePropertyAccessExpression :: "Evaluate \<Rightarrow> Expression \<Rightarrow> string \<Rightarrow> Value M" where
  "evaluatePropertyAccessExpression evaluate objectExpr property =
     andThen (evaluate objectExpr) (\<lambda>object. ret (getProperty object property))"

text \<open>The body of \<^verbatim>\<open>Interpreter::evaluateExpression\<close>: the switch over the kind of node.\<close>

definition evaluateExpression_switch :: "Evaluate \<Rightarrow> Execute \<Rightarrow> Expression \<Rightarrow> Value M" where
  "evaluateExpression_switch evaluate execute expression =
     (case expression of
        BinaryExpression op left right \<Rightarrow> evaluateBinaryExpression evaluate op left right
      | UnaryExpression op expr \<Rightarrow> evaluateUnaryExpression evaluate op expr
      | Identifier name \<Rightarrow> evaluateIdentifier name
      | Literal v \<Rightarrow> evaluateLiteral v
      | CallExpression callee arguments \<Rightarrow> evaluateCallExpression evaluate execute callee arguments
      | ArrayExpression elements \<Rightarrow> evaluateArrayExpression evaluate elements
      | ArrayAccessExpression array index \<Rightarrow> evaluateArrayAccessExpression evaluate array index
      | PropertyAccessExpression object property \<Rightarrow>
          evaluatePropertyAccessExpression evaluate object property)"

subsection \<open>Statements\<close>

definition executeVariableDeclaration :: "Evaluate \<Rightarrow> string \<Rightarrow> Expression option \<Rightarrow> unit M" where
  "executeVariableDeclaration evaluate identifier initializer =
     andThen
       (case initializer of
          Some expr \<Rightarrow> evaluate expr
        | None \<Rightarrow> ret VNull)
       (\<lambda>v. defineVar identifier v)"

definition executeReturnStatement :: "Evaluate \<Rightarrow> Expression option \<Rightarrow> unit M" where
  "executeReturnStatement evaluate valueExpr =
     andThen
       (case valueExpr of
          Some expr \<Rightarrow> evaluate expr
        | None \<Rightarrow> ret VNull)
       (\<lambda>v. throw (Return v))"

definition executeExpressionStatement :: "Evaluate \<Rightarrow> Expression \<Rightarrow> unit M" where
  "executeExpressionStatement evaluate expr = andThen (evaluate expr) (\<lambda>_. ret ())"

definition executeIfStatement ::
  "Evaluate \<Rightarrow> Execute \<Rightarrow> Expression \<Rightarrow> Statement list \<Rightarrow> Statement list option \<Rightarrow> unit M" where
  "executeIfStatement evaluate execute condition thenBranch elseBranch =
     andThen (evaluate condition) (\<lambda>conditionValue.
       let result = isTruthy conditionValue
       in if result then
            andThen getEnvironment (\<lambda>current. execute thenBranch (Map.empty # current))
          else
            (case elseBranch of
               Some stmts \<Rightarrow>
                 andThen getEnvironment (\<lambda>current. execute stmts (Map.empty # current))
             | None \<Rightarrow> ret ()))"

text \<open>The loop over the arguments of a print statement, from argument number \<open>i\<close> on.\<close>

primrec printArguments :: "Evaluate \<Rightarrow> nat \<Rightarrow> Expression list \<Rightarrow> unit M" where
  "printArguments evaluate i [] = ret ()"
| "printArguments evaluate i (arg # rest) =
     andThen (if i > 0 then cout_write '' '' else ret ()) (\<lambda>_.
     andThen (evaluate arg) (\<lambda>v.
     andThen (cout_write (toString v)) (\<lambda>_.
       printArguments evaluate (i + 1) rest)))"

definition executePrintStatement :: "Evaluate \<Rightarrow> bool \<Rightarrow> Expression list \<Rightarrow> string \<Rightarrow> unit M" where
  "executePrintStatement evaluate isPrintln args directString =
     (if directString \<noteq> [] then
        andThen (cout_write directString) (\<lambda>_.
          if isPrintln then cout_write endl else ret ())
      else
        andThen (printArguments evaluate 0 args) (\<lambda>_.
          if isPrintln then cout_write endl else ret ()))"

text \<open>The \<^verbatim>\<open>while (true)\<close> of \<^verbatim>\<open>executeLoopStatement\<close>, for at most \<open>n\<close> iterations.\<close>

primrec loopWhile ::
  "nat \<Rightarrow> Evaluate \<Rightarrow> Execute \<Rightarrow> Expression option \<Rightarrow> Expression option \<Rightarrow> Statement list \<Rightarrow> unit M" where
  "loopWhile 0 evaluate execute condition increment body = throw OutOfFuel"
| "loopWhile (Suc n) evaluate execute condition increment body =
     andThen
       (case condition of
          Some expr \<Rightarrow> andThen (evaluate expr) (\<lambda>conditionValue. ret (isTruthy conditionValue))
        | None \<Rightarrow> ret True)
       (\<lambda>continue.
          if \<not> continue then ret ()
          else
            andThen
              (tryCatch
                 (andThen getEnvironment (\<lambda>current.
                  andThen (execute body current) (\<lambda>_. ret False)))
                 (\<lambda>e. case e of Break \<Rightarrow> ret True | _ \<Rightarrow> throw e))
              (\<lambda>broken.
                 if broken then ret ()
                 else
                   andThen
                     (case increment of
                        Some expr \<Rightarrow> andThen (evaluate expr) (\<lambda>_. ret ())
                      | None \<Rightarrow> ret ())
                     (\<lambda>_. loopWhile n evaluate execute condition increment body)))"

definition executeLoopStatement ::
  "nat \<Rightarrow> Evaluate \<Rightarrow> Execute \<Rightarrow> Statement option \<Rightarrow> Expression option \<Rightarrow> Expression option
     \<Rightarrow> Statement list \<Rightarrow> unit M" where
  "executeLoopStatement n evaluate execute init condition increment body =
     andThen getEnvironment (\<lambda>current.
     andThen saveEnvironment (\<lambda>previousEnv.
     andThen (setEnvironment (Map.empty # current)) (\<lambda>_.
     andThen
       (case init of
          None \<Rightarrow> ret ()
        | Some (VariableDeclaration identifier initializer) \<Rightarrow>
            executeVariableDeclaration evaluate identifier initializer
        | Some (ExpressionStatement expr) \<Rightarrow> executeExpressionStatement evaluate expr
        | Some _ \<Rightarrow> throw (RuntimeError ''Invalid loop initializer''))
       (\<lambda>_.
     andThen
       (tryCatch (loopWhile n evaluate execute condition increment body)
          (\<lambda>e. case e of
                  Return v \<Rightarrow> andThen (restoreEnvironment previousEnv) (\<lambda>_. throw e)
                | _ \<Rightarrow> throw e))
       (\<lambda>_. restoreEnvironment previousEnv)))))"

text \<open>The switch of \<^verbatim>\<open>executeBlock\<close> over the kind of a statement.\<close>

definition executeStatement :: "nat \<Rightarrow> Evaluate \<Rightarrow> Execute \<Rightarrow> Statement \<Rightarrow> unit M" where
  "executeStatement n evaluate execute stmt =
     (case stmt of
        BlockStatement statements \<Rightarrow>
          andThen getEnvironment (\<lambda>current. execute statements (Map.empty # current))
      | VariableDeclaration identifier initializer \<Rightarrow>
          executeVariableDeclaration evaluate identifier initializer
      | FunctionDeclaration name parameters body \<Rightarrow>
          executeFunctionDeclaration name parameters body
      | LoopStatement init condition increment body \<Rightarrow>
          executeLoopStatement n evaluate execute init condition increment body
      | IfStatement condition thenBranch elseBranch \<Rightarrow>
          executeIfStatement evaluate execute condition thenBranch elseBranch
      | PrintStatement isPrintln args directString \<Rightarrow>
          executePrintStatement evaluate isPrintln args directString
      | ReturnStatement v \<Rightarrow> executeReturnStatement evaluate v
      | BreakStatement \<Rightarrow> executeBreakStatement
      | ExpressionStatement expr \<Rightarrow> executeExpressionStatement evaluate expr)"

text \<open>The loop of \<^verbatim>\<open>executeBlock\<close> over the statements of the block.\<close>

primrec executeStatements :: "nat \<Rightarrow> Evaluate \<Rightarrow> Execute \<Rightarrow> Statement list \<Rightarrow> unit M" where
  "executeStatements n evaluate execute [] = ret ()"
| "executeStatements n evaluate execute (stmt # rest) =
     andThen (executeStatement n evaluate execute stmt) (\<lambda>_.
       executeStatements n evaluate execute rest)"

text \<open>The body of \<^verbatim>\<open>Interpreter::executeBlock\<close>.\<close>

definition executeBlock_body ::
  "nat \<Rightarrow> Evaluate \<Rightarrow> Execute \<Rightarrow> Statement list \<Rightarrow> Scope list \<Rightarrow> unit M" where
  "executeBlock_body n evaluate execute statements environment =
     andThen saveEnvironment (\<lambda>previousEnv.
     andThen
       (tryCatch
          (andThen (setEnvironment environment) (\<lambda>_.
             executeStatements n evaluate execute statements))
          (\<lambda>e. case e of
                  Return v \<Rightarrow> andThen (restoreEnvironment previousEnv) (\<lambda>_. throw e)
                | Break \<Rightarrow> andThen (restoreEnvironment previousEnv) (\<lambda>_. throw e)
                | RuntimeError what \<Rightarrow>
                    andThen (cerr_write (''Runtime Error: '' @ what @ endl)) (\<lambda>_.
                    andThen (restoreEnvironment previousEnv) (\<lambda>_. throw e))
                | StdException what \<Rightarrow>
                    andThen (cerr_write (''Runtime Error: '' @ what @ endl)) (\<lambda>_.
                    andThen (restoreEnvironment previousEnv) (\<lambda>_. throw e))
                | _ \<Rightarrow> throw e))
       (\<lambda>_. restoreEnvironment previousEnv))"

subsection \<open>Tying the functions together\<close>

fun evaluateExpression :: "nat \<Rightarrow> Expression \<Rightarrow> Value M"
  and executeBlock :: "nat \<Rightarrow> Statement list \<Rightarrow> Scope list \<Rightarrow> unit M" where
  "evaluateExpression 0 expression = throw OutOfFuel"
| "evaluateExpression (Suc n) expression =
     evaluateExpression_switch (evaluateExpression n) (executeBlock n) expression"
| "executeBlock 0 statements environment = throw OutOfFuel"
| "executeBlock (Suc n) statements environment =
     executeBlock_body n (evaluateExpression n) (executeBlock n) statements environment"

subsection \<open>\<^verbatim>\<open>Interpreter::interpret\<close> and \<^verbatim>\<open>main\<close>\<close>

text \<open>The interpreter after its constructor: the global environment, which encloses
  nothing, and nothing written yet.\<close>

definition Interpreter_new :: Interpreter where
  "Interpreter_new = \<lparr>m_environment = [Map.empty], cout = [], cerr = []\<rparr>"

text \<open>\<^verbatim>\<open>Return\<close> and \<^verbatim>\<open>Break\<close> derive from \<^verbatim>\<open>std::runtime_error\<close> with the empty
  message, so the handler for \<^verbatim>\<open>std::exception\<close> catches them.\<close>

definition Interpreter_interpret :: "nat \<Rightarrow> Statement list \<Rightarrow> unit M" where
  "Interpreter_interpret n program =
     tryCatch (andThen getEnvironment (\<lambda>current. executeBlock n program current))
       (\<lambda>e. case e of
               RuntimeError what \<Rightarrow> cerr_write (''Runtime Error: '' @ what @ endl)
             | Return v \<Rightarrow> cerr_write (''Standard exception: '' @ endl)
             | Break \<Rightarrow> cerr_write (''Standard exception: '' @ endl)
             | StdException what \<Rightarrow> cerr_write (''Standard exception: '' @ what @ endl)
             | _ \<Rightarrow> throw e)"

text \<open>
  How the process ends: with an exit status, killed by the crash of a null pointer, or not
  within the fuel. \<^verbatim>\<open>main\<close> of mainClassicBuffer.cpp is modelled from the call of
  \<^verbatim>\<open>parser.parse()\<close> on, whose outcome is its argument: the message of the exception
  that the parser threw, or the program.
\<close>

datatype Ending = Exited nat | Killed | Unfinished

record Process =
  ending :: Ending
  stdout :: string
  stderr :: string

fun exitOf :: "(Exception + unit) \<times> Interpreter \<Rightarrow> Process" where
  "exitOf (Inr u, st) = \<lparr>ending = Exited 0, stdout = cout st, stderr = cerr st\<rparr>"
| "exitOf (Inl (RuntimeError what), st) =
     \<lparr>ending = Exited 1, stdout = cout st, stderr = cerr st @ ''Runtime Error: '' @ what @ endl\<rparr>"
| "exitOf (Inl (Return v), st) =
     \<lparr>ending = Exited 1, stdout = cout st, stderr = cerr st @ ''Exception: '' @ endl\<rparr>"
| "exitOf (Inl Break, st) =
     \<lparr>ending = Exited 1, stdout = cout st, stderr = cerr st @ ''Exception: '' @ endl\<rparr>"
| "exitOf (Inl (StdException what), st) =
     \<lparr>ending = Exited 1, stdout = cout st, stderr = cerr st @ ''Exception: '' @ what @ endl\<rparr>"
| "exitOf (Inl Crash, st) = \<lparr>ending = Killed, stdout = cout st, stderr = cerr st\<rparr>"
| "exitOf (Inl OutOfFuel, st) = \<lparr>ending = Unfinished, stdout = cout st, stderr = cerr st\<rparr>"

definition main :: "nat \<Rightarrow> string + Statement list \<Rightarrow> Process" where
  "main n parsed =
     (case parsed of
        Inl what \<Rightarrow>
          \<lparr>ending = Exited 1, stdout = [], stderr = ''Parser Exception: '' @ what @ endl\<rparr>
      | Inr program \<Rightarrow> exitOf (Interpreter_interpret n program Interpreter_new))"

section \<open>Programs used in the examples\<close>

text \<open>The syntax trees that the parser builds for the source texts quoted.\<close>

text \<open>\<^verbatim>\<open>println(x);\<close>\<close>

definition undefinedVariableProgram :: "Statement list" where
  "undefinedVariableProgram = [PrintStatement True [Identifier ''x''] []]"

text \<open>\<^verbatim>\<open>var x = 0; false && (x = 1); println(x); true || (x = 2); println(x);\<close>\<close>

definition shortCircuitProgram :: "Statement list" where
  "shortCircuitProgram =
     [VariableDeclaration ''x'' (Some (Literal (TVDouble 0))),
      ExpressionStatement
        (BinaryExpression AND (Literal (TVBool False))
           (BinaryExpression ASSIGN (Identifier ''x'') (Literal (TVDouble 1)))),
      PrintStatement True [Identifier ''x''] [],
      ExpressionStatement
        (BinaryExpression OR (Literal (TVBool True))
           (BinaryExpression ASSIGN (Identifier ''x'') (Literal (TVDouble 2)))),
      PrintStatement True [Identifier ''x''] []]"

text \<open>Scenario C of the specification:
  \<^verbatim>\<open>var s = 0; loop (var i = 0; i < 100; i = i + 1) { if (i == 10) { break; } s = s + i; } println(s);\<close>\<close>

definition scenarioC :: "Statement list" where
  "scenarioC =
     [VariableDeclaration ''s'' (Some (Literal (TVDouble 0))),
      LoopStatement
        (Some (VariableDeclaration ''i'' (Some (Literal (TVDouble 0)))))
        (Some (BinaryExpression LESS (Identifier ''i'') (Literal (TVDouble 100))))
        (Some (BinaryExpression ASSIGN (Identifier ''i'')
                 (BinaryExpression PLUS (Identifier ''i'') (Literal (TVDouble 1)))))
        [IfStatement (BinaryExpression EQUALS (Identifier ''i'') (Literal (TVDouble 10)))
           [BreakStatement] None,
         ExpressionStatement
           (BinaryExpression ASSIGN (Identifier ''s'')
              (BinaryExpression PLUS (Identifier ''s'') (Identifier ''i'')))],
      PrintStatement True [Identifier ''s''] []]"





text \<open>\<^verbatim>\<open>println((0 - 2147483647 - 1) / (0 - 1));\<close>\<close>

definition divisionProgram :: "Statement list" where
  "divisionProgram =
     [PrintStatement True
        [BinaryExpression DIVIDE
           (BinaryExpression MINUS
              (BinaryExpression MINUS (Literal (TVDouble 0)) (Literal (TVDouble 2147483647)))
              (Literal (TVDouble 1)))
           (BinaryExpression MINUS (Literal (TVDouble 0)) (Literal (TVDouble 1)))]
        []]"


text \<open>\<^verbatim>\<open>var x = 1; { var x = 2; x = 3; println(x); } println(x);\<close>\<close>

definition blockProgram :: "Statement list" where
  "blockProgram =
     [VariableDeclaration ''x'' (Some (Literal (TVDouble 1))),
      BlockStatement
        [VariableDeclaration ''x'' (Some (Literal (TVDouble 2))),
         ExpressionStatement (BinaryExpression ASSIGN (Identifier ''x'') (Literal (TVDouble 3))),
         PrintStatement True [Identifier ''x''] []],
      PrintStatement True [Identifier ''x''] []]"

section \<open>Predicates on the chain of environments\<close>

text \<open>
  \<open>shadowed x bs env\<close>: the outermost scopes of the chain \<open>env\<close>, as many as \<open>bs\<close> is long,
  bind \<open>x\<close> as \<open>bs\<close> says (to a value, or not at all), and the scope just inside them binds
  \<open>x\<close>, so that no lookup of \<open>x\<close> from the head of the chain reaches them. With no outer
  scope to speak of (\<open>bs\<close> empty) the predicate says nothing.
\<close>

definition shadowed :: "string \<Rightarrow> Value option list \<Rightarrow> Scope list \<Rightarrow> bool" where
  "shadowed x bs env \<longleftrightarrow>
     bs = [] \<or> (\<exists>inner s outer. env = inner @ s # outer \<and> s x \<noteq> None \<and> map (\<lambda>m. m x) outer = bs)"

definition scopesAt :: "string \<Rightarrow> Value option list \<Rightarrow> nat \<Rightarrow> Interpreter \<Rightarrow> bool" where
  "scopesAt x bs l st \<longleftrightarrow> shadowed x bs (m_environment st) \<and> length (m_environment st) = l"



text \<open>A computation started in a state with \<open>P\<close> ends with \<open>Q\<close> when it returns a value and
  with \<open>E\<close> when it throws.\<close>

fun post :: "('a \<Rightarrow> Interpreter \<Rightarrow> bool) \<Rightarrow> (Exception \<Rightarrow> Interpreter \<Rightarrow> bool)
    \<Rightarrow> (Exception + 'a) \<times> Interpreter \<Rightarrow> bool" where
  "post Q E (Inr v, st) = Q v st"
| "post Q E (Inl e, st) = E e st"

definition hoare :: "(Interpreter \<Rightarrow> bool) \<Rightarrow> 'a M \<Rightarrow> ('a \<Rightarrow> Interpreter \<Rightarrow> bool)
    \<Rightarrow> (Exception \<Rightarrow> Interpreter \<Rightarrow> bool) \<Rightarrow> bool" where
  "hoare P m Q E \<longleftrightarrow> (\<forall>st. P st \<longrightarrow> post Q E (m st))"



section \<open>Rules for running the interpreter on a given state\<close>

lemma ret_apply: "ret v st = (Inr v, st)"
  by (simp add: ret_def)

lemma throw_apply: "throw e st = (Inl e, st)"
  by (simp add: throw_def)

lemma andThen_apply: "andThen m f st = continue (m st) f"
  by (simp add: andThen_def)

lemma tryCatch_apply: "tryCatch m handler st = handle (m st) handler"
  by (simp add: tryCatch_def)

lemma getEnvironment_apply: "getEnvironment st = (Inr (m_environment st), st)"
  by (simp add: getEnvironment_def)

lemma setEnvironment_apply: "setEnvironment e st = (Inr (), st\<lparr>m_environment := e\<rparr>)"
  by (simp add: setEnvironment_def)

lemma saveEnvironment_apply: "saveEnvironment st = (Inr (length (m_environment st)), st)"
  by (simp add: saveEnvironment_def)

lemma restoreEnvironment_apply:
  "restoreEnvironment previousEnv st =
     (Inr (), st\<lparr>m_environment := drop (length (m_environment st) - previousEnv) (m_environment st)\<rparr>)"
  by (simp add: restoreEnvironment_def)

lemma cout_write_apply: "cout_write s st = (Inr (), st\<lparr>cout := cout st @ s\<rparr>)"
  by (simp add: cout_write_def)

lemma cerr_write_apply: "cerr_write s st = (Inr (), st\<lparr>cerr := cerr st @ s\<rparr>)"
  by (simp add: cerr_write_def)

lemma defineVar_apply:
  "defineVar name v st = (Inr (), st\<lparr>m_environment := Environment_define name v (m_environment st)\<rparr>)"
  by (simp add: defineVar_def)

lemma getVar_apply: "getVar name st = (Environment_get name (m_environment st), st)"
  by (simp add: getVar_def)

lemma assignVar_apply:
  "assignVar name v st =
     (case Environment_assign name v (m_environment st) of
        Inl e \<Rightarrow> (Inl e, st)
      | Inr env' \<Rightarrow> (Inr (), st\<lparr>m_environment := env'\<rparr>))"
  by (simp add: assignVar_def)

lemmas monad_apply =
  ret_apply throw_apply andThen_apply tryCatch_apply getEnvironment_apply setEnvironment_apply
  saveEnvironment_apply restoreEnvironment_apply cout_write_apply cerr_write_apply
  defineVar_apply getVar_apply assignVar_apply

text \<open>One step of fuel, for fuel written as a numeral.\<close>

lemma evaluateExpression_numeral:
  "evaluateExpression (numeral k) e st =
     evaluateExpression_switch (evaluateExpression (pred_numeral k)) (executeBlock (pred_numeral k)) e st"
  by (simp add: numeral_eq_Suc)

lemma executeBlock_numeral:
  "executeBlock (numeral k) statements environment st =
     executeBlock_body (pred_numeral k) (evaluateExpression (pred_numeral k))
       (executeBlock (pred_numeral k)) statements environment st"
  by (simp add: numeral_eq_Suc)

lemma loopWhile_numeral:
  "loopWhile (numeral k) evaluate execute condition increment body st =
     andThen
       (case condition of
          Some expr \<Rightarrow> andThen (evaluate expr) (\<lambda>conditionValue. ret (isTruthy conditionValue))
        | None \<Rightarrow> ret True)
       (\<lambda>continue.
          if \<not> continue then ret ()
          else
            andThen
              (tryCatch
                 (andThen getEnvironment (\<lambda>current.
                  andThen (execute body current) (\<lambda>_. ret False)))
                 (\<lambda>e. case e of Break \<Rightarrow> ret True | _ \<Rightarrow> throw e))
              (\<lambda>broken.
                 if broken then ret ()
                 else
                   andThen
                     (case increment of
                        Some expr \<Rightarrow> andThen (evaluate expr) (\<lambda>_. ret ())
                      | None \<Rightarrow> ret ())
                     (\<lambda>_. loopWhile (pred_numeral k) evaluate execute condition increment body))) st"
  by (simp add: numeral_eq_Suc)

text \<open>The tests of the type of a value, and the fields, constructor by constructor.\<close>

lemma isNull_simps:
  "isNull VNull" "\<not> isNull (VNumber d)" "\<not> isNull (VInteger i)" "\<not> isNull (VString s)"
  "\<not> isNull (VBoolean b)" "\<not> isNull (VArray xs)" "\<not> isNull (VFunction f ps body)"
  "\<not> isNull VNativeFunction"
  by (simp_all add: isNull_def)

lemma isInteger_simps:
  "\<not> isInteger VNull" "\<not> isInteger (VNumber d)" "isInteger (VInteger i)" "\<not> isInteger (VString s)"
  "\<not> isInteger (VBoolean b)" "\<not> isInteger (VArray xs)" "\<not> isInteger (VFunction f ps body)"
  "\<not> isInteger VNativeFunction"
  by (simp_all add: isInteger_def)

lemma isDouble_simps:
  "\<not> isDouble VNull" "isDouble (VNumber d)" "\<not> isDouble (VInteger i)" "\<not> isDouble (VString s)"
  "\<not> isDouble (VBoolean b)" "\<not> isDouble (VArray xs)" "\<not> isDouble (VFunction f ps body)"
  "\<not> isDouble VNativeFunction"
  by (simp_all add: isDouble_def)

lemma isString_simps:
  "\<not> isString VNull" "\<not> isString (VNumber d)" "\<not> isString (VInteger i)" "isString (VString s)"
  "\<not> isString (VBoolean b)" "\<not> isString (VArray xs)" "\<not> isString (VFunction f ps body)"
  "\<not> isString VNativeFunction"
  by (simp_all add: isString_def)

lemma isBoolean_simps:
  "\<not> isBoolean VNull" "\<not> isBoolean (VNumber d)" "\<not> isBoolean (VInteger i)" "\<not> isBoolean (VString s)"
  "isBoolean (VBoolean b)" "\<not> isBoolean (VArray xs)" "\<not> isBoolean (VFunction f ps body)"
  "\<not> isBoolean VNativeFunction"
  by (simp_all add: isBoolean_def)

lemma isArray_simps:
  "\<not> isArray VNull" "\<not> isArray (VNumber d)" "\<not> isArray (VInteger i)" "\<not> isArray (VString s)"
  "\<not> isArray (VBoolean b)" "isArray (VArray xs)" "\<not> isArray (VFunction f ps body)"
  "\<not> isArray VNativeFunction"
  by (simp_all add: isArray_def)

lemma field_simps_Value:
  "integer_of (VInteger i) = i" "string_of (VString s) = s" "boolean_of (VBoolean b) = b"
  "array_of (VArray xs) = xs"
  by (simp_all add: integer_of_def string_of_def boolean_of_def array_of_def)

lemma asNumber_simps:
  "asNumber (VNumber d) = d" "asNumber (VInteger i) = real_of_int (sint i)"
  "asNumber (VBoolean b) = (if b then 1 else 0)" "asNumber VNull = 0"
  "asNumber (VArray xs) = real (length xs)" "asNumber (VFunction f ps body) = 0"
  "asNumber VNativeFunction = 0"
  by (simp_all add: asNumber_def int_to_double_def)

lemma asBoolean_simps:
  "asBoolean (VBoolean b) = b" "asBoolean (VInteger i) = (i \<noteq> 0)" "asBoolean (VNumber d) = (d \<noteq> 0)"
  "asBoolean (VString s) = (s \<noteq> [])" "asBoolean VNull = False" "asBoolean (VArray xs) = (xs \<noteq> [])"
  "asBoolean (VFunction f ps body) = True" "asBoolean VNativeFunction = True"
  by (simp_all add: asBoolean_def)

lemma nat_to_string_digit: "n < 10 \<Longrightarrow> nat_to_string n = [digit_char n]"
  by (subst nat_to_string.simps) simp

lemma nat_to_string_more:
  "\<not> n < 10 \<Longrightarrow> nat_to_string n = nat_to_string (n div 10) @ [digit_char (n mod 10)]"
  by (subst nat_to_string.simps) simp

lemma replicate_numeral_Cons: "replicate (numeral k) x = x # replicate (pred_numeral k) x"
  by (simp add: numeral_eq_Suc)

lemmas value_simps =
  isNull_simps isInteger_simps isDouble_simps isString_simps isBoolean_simps isArray_simps
  isNumber_def field_simps_Value asNumber_simps asBoolean_simps isTruthy_def

lemmas operator_defs =
  Value_plus_def Value_minus_def Value_times_def Value_divide_def Value_modulo_def
  Value_eq_def Value_ne_def Value_lt_def Value_le_def Value_gt_def Value_ge_def
  demote_def static_cast_int_def trunc_double_def int_to_double_def INT_MIN_def INT_MAX_def
  int_div_def int_mod_def int_undefined_def fmod_def definedValue_def

lemmas text_defs =
  to_string_int_def to_string_double_def round_half_even_def pad6_def nat_to_string_digit
  nat_to_string_more replicate_numeral_Cons digit_char_def endl_def NEWLINE_def SQUOTE_def Let_def

lemmas interpreter_defs =
  evaluateExpression_switch_def evaluateBinaryExpression_def evaluateUnaryExpression_def
  evaluateCallExpression_def evaluateArrayExpression_def evaluateArrayAccessExpression_def
  evaluatePropertyAccessExpression_def evaluateIdentifier_def evaluateLiteral_def
  Value_call_def executeVariableDeclaration_def executeReturnStatement_def
  executeExpressionStatement_def executeIfStatement_def executePrintStatement_def
  executeLoopStatement_def executeStatement_def executeBlock_body_def
  executeFunctionDeclaration_def executeBreakStatement_def Interpreter_interpret_def
  Interpreter_new_def main_def undefinedVariable_def

lemmas run =
  monad_apply evaluateExpression_numeral executeBlock_numeral loopWhile_numeral value_simps operator_defs text_defs interpreter_defs

section \<open>Properties of the lexer\<close>

text \<open>At the end of the source \<open>nextToken\<close> returns \<^verbatim>\<open>EOF\<close> before it looks at the buffer
  of pushed-back tokens, which it leaves as it is.\<close>

lemma nextToken_at_end:
  assumes "isAtEnd (skipWhitespace l)"
  shows "type (fst (nextToken l)) = EOF_TOKEN"
    and "m_tokenBuffer (snd (nextToken l)) = m_tokenBuffer (skipWhitespace l)"
  using assms by (simp_all add: nextToken_def Let_def isAtEnd_def Token4_def)

text \<open>
  C4 (the source ends with \<^verbatim>\<open>loop(\<close>). The first call of \<open>nextToken\<close> returns the
  \<^verbatim>\<open>LOOP\<close> token, consumes the parenthesis (all five characters are read) and buffers
  the \<^verbatim>\<open>LPAREN\<close> token. The call that follows returns \<^verbatim>\<open>EOF\<close>, not \<^verbatim>\<open>LPAREN\<close>,
  and the buffered token is still in the buffer afterwards. With one more character in
  the source the same second call returns the buffered \<^verbatim>\<open>LPAREN\<close>.
\<close>

theorem loop_paren_at_end_of_source:
  "type (fst (nextToken (Lexer_new ''loop(''))) = LOOP
   \<and> m_current (snd (nextToken (Lexer_new ''loop(''))) = 5
   \<and> m_tokenBuffer (snd (nextToken (Lexer_new ''loop(''))) = [Token4 LPAREN ''('' 1 5]
   \<and> type (fst (nextToken (snd (nextToken (Lexer_new ''loop(''))))) = EOF_TOKEN
   \<and> m_tokenBuffer (snd (nextToken (snd (nextToken (Lexer_new ''loop(''))))) = [Token4 LPAREN ''('' 1 5]
   \<and> fst (nextToken (snd (nextToken (Lexer_new ''loop(x'')))) = Token4 LPAREN ''('' 1 5"
  by code_simp

section \<open>Properties of values\<close>

text \<open>
  C6 (reading an element). For an array, a negative index and an index that is not below
  the length yield null. For a value that is neither an array nor a string, index 0 yields
  the value itself and every other index null. For a string, index 0 yields the string, an
  index strictly between 0 and the length the one-character string at that position, and
  every other index null.
\<close>

theorem getArrayElement_reads:
  "(sint i < 0 \<or> int (length xs) \<le> sint i \<longrightarrow> getArrayElement (VArray xs) i = VNull)
   \<and> (\<not> isArray v \<and> \<not> isString v \<longrightarrow>
        getArrayElement v 0 = v \<and> (i \<noteq> 0 \<longrightarrow> getArrayElement v i = VNull))
   \<and> getArrayElement (VString s) 0 = VString s
   \<and> (0 < sint i \<and> sint i < int (length s) \<longrightarrow>
        getArrayElement (VString s) i = VString [s ! nat (sint i)])
   \<and> (i \<noteq> 0 \<and> \<not> (0 < sint i \<and> sint i < int (length s)) \<longrightarrow>
        getArrayElement (VString s) i = VNull)"
  by (cases v) (auto simp: getArrayElement_def isArray_def isString_def)

theorem getArrayElement_reads_witness:
  "sint (- 1 :: 32 word) < 0
   \<and> getArrayElement (VArray [VInteger 7]) (- 1) = VNull
   \<and> int (length [VInteger 7]) \<le> sint (1 :: 32 word)
   \<and> getArrayElement (VArray [VInteger 7]) 1 = VNull
   \<and> \<not> isArray (VBoolean True) \<and> \<not> isString (VBoolean True)
   \<and> getArrayElement (VBoolean True) 0 = VBoolean True
   \<and> getArrayElement (VBoolean True) 1 = VNull
   \<and> getArrayElement (VString ''abc'') 0 = VString ''abc''
   \<and> getArrayElement (VString ''abc'') 1 = VString ''b''
   \<and> getArrayElement (VString ''abc'') (- 1) = VNull"
  using getArrayElement_reads [of "- 1" "[VInteger 7]" "VBoolean True" "''abc''"]
        getArrayElement_reads [of 1 "[VInteger 7]" "VBoolean True" "''abc''"]
  by (simp add: isArray_def isString_def)

subsection \<open>Division\<close>

text \<open>A number in the range of \<^verbatim>\<open>int\<close> is read back unchanged from its 32-bit word.\<close>

lemma sint_word_of_int_32:
  "INT_MIN \<le> t \<Longrightarrow> t \<le> INT_MAX \<Longrightarrow> sint (word_of_int t :: 32 word) = t"
  by (simp add: sint_sbintrunc' signed_take_bit_int_eq_self INT_MIN_def INT_MAX_def)

lemma trunc_double_of_int: "trunc_double (real_of_int k) = k"
  by (simp add: trunc_double_def)

lemma INT_MIN_in_range: "INT_MIN \<le> INT_MIN" "INT_MIN \<le> INT_MAX"
  by (simp_all add: INT_MIN_def INT_MAX_def)

text \<open>The test \<^verbatim>\<open>result == static_cast<int>(result)\<close> holds exactly for the whole numbers
  in the range of \<^verbatim>\<open>int\<close>.\<close>

lemma demote_cases:
  "demote q =
     (if (\<exists>k. q = real_of_int k \<and> INT_MIN \<le> k \<and> k \<le> INT_MAX)
      then VInteger (word_of_int \<lfloor>q\<rfloor>) else VNumber q)"
proof (cases "\<exists>k. q = real_of_int k \<and> INT_MIN \<le> k \<and> k \<le> INT_MAX")
  case True
  then obtain k where k: "q = real_of_int k" "INT_MIN \<le> k" "k \<le> INT_MAX" by blast
  then have "static_cast_int q = word_of_int k"
    by (simp add: static_cast_int_def trunc_double_of_int)
  with k True show ?thesis
    by (simp add: demote_def int_to_double_def sint_word_of_int_32 del: of_int_eq_iff)
next
  case False
  have "q \<noteq> int_to_double (static_cast_int q)"
  proof
    assume eq: "q = int_to_double (static_cast_int q)"
    show False
    proof (cases "INT_MIN \<le> trunc_double q \<and> trunc_double q \<le> INT_MAX")
      case True
      with eq have "q = real_of_int (trunc_double q)"
        by (simp add: static_cast_int_def int_to_double_def sint_word_of_int_32)
      with True False show False by blast
    next
      case out: False
      with eq have "q = real_of_int INT_MIN"
        by (simp add: static_cast_int_def int_to_double_def sint_word_of_int_32 INT_MIN_in_range)
      with False INT_MIN_in_range show False by blast
    qed
  qed
  with False show ?thesis
    by (simp add: demote_def)
qed

lemma smod_bound: "\<bar>(k::int) smod l\<bar> \<le> \<bar>k\<bar>"
proof -
  have "0 \<le> \<bar>k\<bar> mod \<bar>l\<bar>"
    by (cases "l = 0") simp_all
  moreover have "\<bar>k\<bar> mod \<bar>l\<bar> \<le> \<bar>k\<bar>"
    by (rule zmod_le_nonneg_dividend) simp
  ultimately show ?thesis
    by (cases "k = 0") (simp_all add: signed_modulo_int_def abs_mult)
qed

lemma sint_abs_bound: "\<bar>sint (x :: 32 word)\<bar> \<le> 2 ^ 31"
  using sint_ge [of x] sint_lt [of x] by simp

lemma word_of_smod_eq_0_iff:
  "(word_of_int (sint x smod sint y) :: 32 word) = 0 \<longleftrightarrow> sint (x :: 32 word) smod sint (y :: 32 word) = 0"
proof -
  have b: "\<bar>sint x smod sint y\<bar> \<le> 2 ^ 31"
    using smod_bound [of "sint x" "sint y"] sint_abs_bound [of x] by linarith
  show ?thesis
  proof
    assume "(word_of_int (sint x smod sint y) :: 32 word) = 0"
    then have "(2::int) ^ 32 dvd sint x smod sint y"
      by (simp add: word_of_int_eq_0_iff)
    with b show "sint x smod sint y = 0"
      by (auto elim!: dvdE)
  next
    assume "sint x smod sint y = 0"
    then show "(word_of_int (sint x smod sint y) :: 32 word) = 0" by simp
  qed
qed

lemma not_integral_7_2:
  "\<not> (\<exists>k. (7::real) / 2 = real_of_int k \<and> INT_MIN \<le> k \<and> k \<le> INT_MAX)"
proof
  assume "\<exists>k. (7::real) / 2 = real_of_int k \<and> INT_MIN \<le> k \<and> k \<le> INT_MAX"
  then obtain k where "(7::real) / 2 = real_of_int k" by blast
  then have "real_of_int 7 = real_of_int (2 * k)" by simp
  then have "(7::int) = 2 * k" by (simp only: of_int_eq_iff)
  then show False by presburger
qed

lemma integral_3:
  "\<exists>k. (9::real) / 2 / (3 / 2) = real_of_int k \<and> INT_MIN \<le> k \<and> k \<le> INT_MAX"
  by (rule exI [of _ 3]) (simp add: INT_MIN_def INT_MAX_def)

text \<open>
  Where the division is defined, it is as the specification says. When the divisor coerces
  to the number zero the quotient is the Integer 0, whatever the operands are. Otherwise,
  when both operands are Integers and the remainder is zero, the quotient is the Integer
  quotient. In every other case the quotient is that of the numeric coercions, an Integer
  when it is a whole number in the range of \<^verbatim>\<open>int\<close> and a Double otherwise. The quotient of
  \<^verbatim>\<open>INT_MIN\<close> by \<open>-1\<close> is the one pair of operands for which it is not defined.
\<close>

lemma asNumber_integer_eq_0:
  "isInteger b \<Longrightarrow> asNumber b = 0 \<longleftrightarrow> sint (integer_of b) = 0"
  by (cases b)
     (simp_all add: isInteger_def asNumber_def integer_of_def int_to_double_def del: of_int_sint)

lemma Value_divide_defined:
  "(asNumber b = 0 \<longrightarrow> Value_divide a b = Some (VInteger 0))
   \<and> (asNumber b \<noteq> 0 \<and> isInteger a \<and> isInteger b
        \<and> sint (integer_of a) smod sint (integer_of b) = 0
        \<and> \<not> (sint (integer_of a) = INT_MIN \<and> sint (integer_of b) = - 1) \<longrightarrow>
        Value_divide a b
          = Some (VInteger (word_of_int (sint (integer_of a) sdiv sint (integer_of b)))))
   \<and> (asNumber b \<noteq> 0
        \<and> \<not> (isInteger a \<and> isInteger b \<and> sint (integer_of a) smod sint (integer_of b) = 0) \<longrightarrow>
        Value_divide a b =
          Some (if (\<exists>k. asNumber a / asNumber b = real_of_int k \<and> INT_MIN \<le> k \<and> k \<le> INT_MAX)
                then VInteger (word_of_int \<lfloor>asNumber a / asNumber b\<rfloor>)
                else VNumber (asNumber a / asNumber b)))
   \<and> (isInteger a \<and> isInteger b \<and> sint (integer_of a) = INT_MIN \<and> sint (integer_of b) = - 1 \<longrightarrow>
        Value_divide a b = None)"
proof (intro conjI impI)
  assume "asNumber b = 0"
  then show "Value_divide a b = Some (VInteger 0)"
    by (simp add: Value_divide_def)
next
  assume h: "asNumber b \<noteq> 0 \<and> isInteger a \<and> isInteger b
    \<and> sint (integer_of a) smod sint (integer_of b) = 0
    \<and> \<not> (sint (integer_of a) = INT_MIN \<and> sint (integer_of b) = - 1)"
  then have "sint (integer_of b) \<noteq> 0"
    using asNumber_integer_eq_0 [of b] by blast
  with h have "\<not> int_undefined (integer_of a) (integer_of b)"
    by (simp add: int_undefined_def)
  with h show "Value_divide a b
      = Some (VInteger (word_of_int (sint (integer_of a) sdiv sint (integer_of b))))"
    by (simp add: Value_divide_def int_mod_def int_div_def)
next
  assume h: "asNumber b \<noteq> 0
    \<and> \<not> (isInteger a \<and> isInteger b \<and> sint (integer_of a) smod sint (integer_of b) = 0)"
  have "Value_divide a b = Some (demote (asNumber a / asNumber b))"
  proof (cases "isInteger a \<and> isInteger b")
    case True
    with h have nz: "sint (integer_of b) \<noteq> 0"
      using asNumber_integer_eq_0 [of b] by blast
    from True h have r: "sint (integer_of a) smod sint (integer_of b) \<noteq> 0" by simp
    then have "\<not> (sint (integer_of a) = INT_MIN \<and> sint (integer_of b) = - 1)"
      by (auto simp: signed_modulo_int_def)
    with nz have "\<not> int_undefined (integer_of a) (integer_of b)"
      by (simp add: int_undefined_def)
    with True h r show ?thesis
      by (simp add: Value_divide_def int_mod_def word_of_smod_eq_0_iff)
  next
    case False
    with h show ?thesis by (auto simp: Value_divide_def)
  qed
  then show "Value_divide a b =
      Some (if (\<exists>k. asNumber a / asNumber b = real_of_int k \<and> INT_MIN \<le> k \<and> k \<le> INT_MAX)
            then VInteger (word_of_int \<lfloor>asNumber a / asNumber b\<rfloor>)
            else VNumber (asNumber a / asNumber b))"
    by (simp only: demote_cases)
next
  assume h: "isInteger a \<and> isInteger b \<and> sint (integer_of a) = INT_MIN \<and> sint (integer_of b) = - 1"
  then have "asNumber b \<noteq> 0"
    using asNumber_integer_eq_0 [of b] by simp
  with h show "Value_divide a b = None"
    by (simp add: Value_divide_def int_mod_def int_undefined_def)
qed

lemma Value_divide_examples:
  "Value_divide (VInteger 1) (VInteger 0) = Some (VInteger 0)
   \<and> Value_divide (VString ''abc'') VNull = Some (VInteger 0)
   \<and> Value_divide (VInteger 6) (VInteger 3) = Some (VInteger 2)
   \<and> Value_divide (VInteger 7) (VInteger 2) = Some (VNumber (7 / 2))
   \<and> Value_divide (VNumber (9 / 2)) (VNumber (3 / 2)) = Some (VInteger 3)"
  using Value_divide_defined [of "VInteger 0" "VInteger 1"]
        Value_divide_defined [of "VNull" "VString ''abc''"]
        Value_divide_defined [of "VInteger 3" "VInteger 6"]
        Value_divide_defined [of "VInteger 2" "VInteger 7"]
        Value_divide_defined [of "VNumber (3 / 2)" "VNumber (9 / 2)"]
        not_integral_7_2 integral_3
  by (simp add: value_simps signed_modulo_int_def signed_divide_int_def INT_MIN_def)

text \<open>
  C7 (division). The operands of \<^verbatim>\<open>(0 - 2147483647 - 1) / (0 - 1)\<close> are the Integers
  \<^verbatim>\<open>INT_MIN\<close> and \<open>-1\<close>. The divisor is not zero and both are Integers, so the code computes
  \<^verbatim>\<open>integer_ % other.integer_\<close>, which C++ leaves undefined for them: the division yields
  no value, and the program that prints it is killed before it has written anything.
\<close>

theorem division_of_INT_MIN_by_minus_1:
  "Value_minus (Value_minus (VInteger 0) (VInteger 2147483647)) (VInteger 1)
     = VInteger (- 2147483648)
   \<and> Value_minus (VInteger 0) (VInteger 1) = VInteger (- 1)
   \<and> sint (- 2147483648 :: 32 word) = INT_MIN
   \<and> asNumber (VInteger (- 1)) = - 1
   \<and> Value_divide (VInteger (- 2147483648)) (VInteger (- 1)) = None
   \<and> main 30 (Inr divisionProgram) = \<lparr>ending = Killed, stdout = [], stderr = []\<rparr>"
  by (simp add: run divisionProgram_def)


subsection \<open>Writing an element\<close>

lemma setArrayElement_array:
  "setArrayElement i x (VArray b) =
     (if sint i < 0 then VArray b
      else if int (length b) \<le> sint i \<and> 1000 < sint i then VArray b
      else VArray ((b @ replicate (nat (sint i) + 1 - length b) VNull)[nat (sint i) := x]))"
  by (auto simp: setArrayElement_def resize_def Let_def)

lemma setArrayElement_string:
  "setArrayElement i x (VString s) = setArrayElement i x (VArray [VString s])"
  by (simp add: setArrayElement_def)

lemma setArrayElement_is_array: "\<exists>arr. setArrayElement i x v = VArray arr"
  by (simp add: setArrayElement_def Let_def)

text \<open>
  C5 (writing an element), as the code has it. The value is an array afterwards. For an
  array, and for a string taken as the array of that one string: a negative index leaves
  the array as it is; an index above 1000 leaves it as it is when the index is not below
  the length; every other index is written, after the array has been grown with null values
  so that the index exists. For every value that is not an array and an index from 0 to
  1000, the array afterwards ends at the index, holds the new element there and null at
  every position strictly between 0 and the index. In all: the value is first promoted to
  an array that depends on the value alone, and every write, whatever the index and the
  element, is the write described above into that array. The array is the value itself for
  an array and the array of the string for a string; for any other value it is empty or
  holds that value alone.
\<close>

theorem setArrayElement_amended:
  "(\<exists>arr. setArrayElement i x v = VArray arr)
   \<and> (v = VArray b \<or> v = VString s \<and> b = [VString s] \<longrightarrow>
        setArrayElement i x v =
          (if sint i < 0 then VArray b
           else if int (length b) \<le> sint i \<and> 1000 < sint i then VArray b
           else VArray ((b @ replicate (nat (sint i) + 1 - length b) VNull)[nat (sint i) := x])))
   \<and> (\<not> isArray v \<and> 0 \<le> sint i \<and> sint i \<le> 1000 \<longrightarrow>
        (\<exists>arr. setArrayElement i x v = VArray arr \<and> length arr = nat (sint i) + 1
           \<and> arr ! nat (sint i) = x
           \<and> (\<forall>j. 0 < j \<and> j < nat (sint i) \<longrightarrow> arr ! j = VNull)))
   \<and> (\<exists>promoted.
        (\<forall>j y. setArrayElement j y v =
           (if sint j < 0 then VArray promoted
            else if int (length promoted) \<le> sint j \<and> 1000 < sint j then VArray promoted
            else VArray ((promoted @ replicate (nat (sint j) + 1 - length promoted) VNull)
                           [nat (sint j) := y])))
        \<and> (\<not> isArray v \<longrightarrow> length promoted \<le> 1 \<and> (\<forall>e\<in>set promoted. e = v)))"
proof (intro conjI impI)
  show "\<exists>arr. setArrayElement i x v = VArray arr"
    by (rule setArrayElement_is_array)
next
  define base where "base = (case v of VString s \<Rightarrow> [VString s] | VArray xs \<Rightarrow> xs | _ \<Rightarrow> [])"
  have "setArrayElement j y v = setArrayElement j y (VArray base)" for j y
    by (cases v) (simp_all add: setArrayElement_def base_def)
  then have "\<forall>j y. setArrayElement j y v =
           (if sint j < 0 then VArray base
            else if int (length base) \<le> sint j \<and> 1000 < sint j then VArray base
            else VArray ((base @ replicate (nat (sint j) + 1 - length base) VNull)
                           [nat (sint j) := y]))"
    by (simp only: setArrayElement_array) simp
  moreover have "\<not> isArray v \<longrightarrow> length base \<le> 1 \<and> (\<forall>e\<in>set base. e = v)"
    by (cases v) (simp_all add: base_def isArray_def)
  ultimately show "\<exists>promoted.
        (\<forall>j y. setArrayElement j y v =
           (if sint j < 0 then VArray promoted
            else if int (length promoted) \<le> sint j \<and> 1000 < sint j then VArray promoted
            else VArray ((promoted @ replicate (nat (sint j) + 1 - length promoted) VNull)
                           [nat (sint j) := y])))
        \<and> (\<not> isArray v \<longrightarrow> length promoted \<le> 1 \<and> (\<forall>e\<in>set promoted. e = v))"
    by blast
next
  assume "v = VArray b \<or> v = VString s \<and> b = [VString s]"
  then show "setArrayElement i x v =
          (if sint i < 0 then VArray b
           else if int (length b) \<le> sint i \<and> 1000 < sint i then VArray b
           else VArray ((b @ replicate (nat (sint i) + 1 - length b) VNull)[nat (sint i) := x]))"
    by (auto simp only: setArrayElement_string setArrayElement_array)
next
  assume h: "\<not> isArray v \<and> 0 \<le> sint i \<and> sint i \<le> 1000"
  define base where "base = (case v of VString s \<Rightarrow> [VString s] | VArray xs \<Rightarrow> xs | _ \<Rightarrow> [])"
  from h have len: "length base \<le> 1"
    by (cases v) (simp_all add: base_def isArray_def)
  define n where "n = nat (sint i)"
  define arr where "arr = (base @ replicate (n + 1 - length base) VNull)[n := x]"
  from h len have eq: "setArrayElement i x v = VArray arr"
    unfolding arr_def n_def base_def [symmetric]
    by (cases "length base = 0")
       (auto simp: setArrayElement_def resize_def Let_def base_def [symmetric])
  from len have l: "length arr = n + 1" by (simp add: arr_def)
  then have w: "arr ! n = x" by (simp add: arr_def)
  have m: "\<forall>j. 0 < j \<and> j < n \<longrightarrow> arr ! j = VNull"
  proof (intro allI impI)
    fix j assume j: "0 < j \<and> j < n"
    with len have "j - length base < n + 1 - length base" "length base \<le> j"
      by arith+
    then have "(base @ replicate (n + 1 - length base) VNull) ! j = VNull"
      by (simp add: nth_append)
    with j show "arr ! j = VNull" by (simp add: arr_def)
  qed
  from eq l w m show "\<exists>arr. setArrayElement i x v = VArray arr \<and> length arr = nat (sint i) + 1
           \<and> arr ! nat (sint i) = x
           \<and> (\<forall>j. 0 < j \<and> j < nat (sint i) \<longrightarrow> arr ! j = VNull)"
    unfolding n_def by blast
qed

theorem setArrayElement_amended_witness:
  "setArrayElement 2 (VInteger 7) (VString ''ab'') = VArray [VString ''ab'', VNull, VInteger 7]
   \<and> setArrayElement (- 1) (VInteger 7) (VArray [VNull]) = VArray [VNull]
   \<and> setArrayElement 1001 (VInteger 7) (VArray [VNull]) = VArray [VNull]
   \<and> setArrayElement 0 (VInteger 7) (VArray [VNull, VNull]) = VArray [VInteger 7, VNull]
   \<and> \<not> isArray (VBoolean True) \<and> 0 \<le> sint (3 :: 32 word) \<and> sint (3 :: 32 word) \<le> 1000
   \<and> (\<exists>arr. setArrayElement 3 (VInteger 7) (VBoolean True) = VArray arr
         \<and> length arr = 4 \<and> arr ! 3 = VInteger 7)
   \<and> setArrayElement (- 1) (VInteger 7) (VBoolean True)
       = setArrayElement 1001 (VInteger 8) (VBoolean True)"
  using setArrayElement_amended [of 2 "VInteger 7" "VString ''ab''" "[VString ''ab'']" "''ab''"]
        setArrayElement_amended [of "- 1" "VInteger 7" "VArray [VNull]" "[VNull]" "[]"]
        setArrayElement_amended [of 1001 "VInteger 7" "VArray [VNull]" "[VNull]" "[]"]
        setArrayElement_amended [of 0 "VInteger 7" "VArray [VNull, VNull]" "[VNull, VNull]" "[]"]
        setArrayElement_amended [of 3 "VInteger 7" "VBoolean True" "[]" "[]"]
  by (auto simp: isArray_def numeral_2_eq_2 numeral_3_eq_3)

text \<open>
  Two writes of the code: an index above 1000 that is below the
  length of the array is written, and the array made of a value that is neither an array
  nor a string does not hold that value.
\<close>

theorem setArrayElement_counterexample:
  "setArrayElement 1001 (VInteger 7) (VArray (replicate 1002 VNull)) \<noteq> VArray (replicate 1002 VNull)
   \<and> setArrayElement 1 (VInteger 7) (VInteger 5) = VArray [VNull, VInteger 7]"
proof
  have "(replicate 1002 VNull)[1001 := VInteger 7] ! 1001 \<noteq> replicate 1002 VNull ! 1001"
    by simp
  then have "(replicate 1002 VNull)[1001 := VInteger 7] \<noteq> replicate 1002 VNull"
    by metis
  then show "setArrayElement 1001 (VInteger 7) (VArray (replicate 1002 VNull)) \<noteq> VArray (replicate 1002 VNull)"
    by (simp add: setArrayElement_array)
next
  show "setArrayElement 1 (VInteger 7) (VInteger 5) = VArray [VNull, VInteger 7]"
    by (simp add: setArrayElement_def resize_def)
qed

section \<open>Properties of the interpreter\<close>

subsection \<open>Exit status\<close>

text \<open>\<open>Interpreter_interpret\<close> catches every exception, so it never ends with one.\<close>

lemma Interpreter_interpret_catches_all:
  "fst (Interpreter_interpret n program st) = Inr ()
   \<or> fst (Interpreter_interpret n program st) = Inl Crash
   \<or> fst (Interpreter_interpret n program st) = Inl OutOfFuel"
proof -
  obtain r st' where r: "andThen getEnvironment (\<lambda>current. executeBlock n program current) st = (r, st')"
    by (cases "andThen getEnvironment (\<lambda>current. executeBlock n program current) st")
  show ?thesis
  proof (cases r)
    case (Inl e)
    with r show ?thesis
      by (cases e) (simp_all add: Interpreter_interpret_def tryCatch_def cerr_write_def throw_def)
  next
    case (Inr u)
    with r show ?thesis
      by (simp add: Interpreter_interpret_def tryCatch_def)
  qed
qed

text \<open>Hence the handlers of \<open>main\<close> that return 1 for an exception of the interpreter
  never run: once the program is parsed, the exit status is never 1.\<close>

lemma main_never_exits_1_after_parse: "ending (main n (Inr program)) \<noteq> Exited 1"
proof -
  obtain r st' where r: "Interpreter_interpret n program Interpreter_new = (r, st')"
    by (cases "Interpreter_interpret n program Interpreter_new")
  with Interpreter_interpret_catches_all [of n program Interpreter_new]
  show ?thesis
    by (auto simp: main_def)
qed

text \<open>
  C1 (a runtime error and the exit status). The program \<^verbatim>\<open>println(x);\<close> uses an undefined
  variable. The diagnostic is written to the standard error stream, once by \<open>executeBlock\<close>
  and once by \<open>Interpreter_interpret\<close>, nothing is written to the standard output, and the
  process ends with exit status 0.
\<close>

theorem runtime_error_exits_0:
  "main 10 (Inr undefinedVariableProgram) =
     \<lparr>ending = Exited 0, stdout = [],
      stderr = ''Runtime Error: Undefined variable '' @ [SQUOTE] @ ''x'' @ [SQUOTE] @ endl
             @ ''Runtime Error: Undefined variable '' @ [SQUOTE] @ ''x'' @ [SQUOTE] @ endl\<rparr>"
  by (simp add: run undefinedVariableProgram_def)

subsection \<open>Logical operators\<close>

text \<open>
  C2 (short circuit). In \<^verbatim>\<open>var x = 0; false && (x = 1); println(x); true || (x = 2); println(x);\<close>
  the left operand decides each result, and yet both assignments take place: the program
  prints 1 and then 2.
\<close>

theorem right_operand_always_evaluated:
  "main 10 (Inr shortCircuitProgram) =
     \<lparr>ending = Exited 0, stdout = ''1'' @ endl @ ''2'' @ endl, stderr = []\<rparr>"
  by (simp add: run shortCircuitProgram_def)

subsection \<open>Assignment of a sum\<close>

text \<open>
  C3 (Scenario C). The program sums \<open>i\<close> from 0 through 9 into \<open>s\<close> by \<^verbatim>\<open>s = s + i\<close>
  and prints \<open>s\<close>. What it prints is \<^verbatim>\<open>45.000000\<close> and a line break: the assignment has
  stored the sum as a double.
\<close>

theorem scenarioC_prints_double:
  "main 30 (Inr scenarioC) = \<lparr>ending = Exited 0, stdout = ''45.000000'' @ endl, stderr = []\<rparr>"
  by (simp add: run scenarioC_def)

subsection \<open>Unary minus\<close>

text \<open>
  C10 (unary minus). When the operand evaluates to a value \<open>v\<close>, the expression \<open>-v\<close> evaluates
  to the Double that is the negation of the numeric coercion of \<open>v\<close>, with the state the
  operand left; such a value is tagged Double and not Integer. This holds for every
  evaluator of the operand, and so for the interpreter at every depth of evaluation. The
  source text \<^verbatim>\<open>-5\<close> is the token \<^verbatim>\<open>MINUS\<close> followed by the number 5; the literal 5 evaluates
  to the Integer 5 and its negation to the Double -5.
\<close>

theorem unary_minus_is_double:
  "(evaluate expr st = (Inr v, st') \<longrightarrow>
      evaluateUnaryExpression evaluate MINUS expr st = (Inr (VNumber (- asNumber v)), st'))
   \<and> (evaluateExpression n expr st = (Inr v, st') \<longrightarrow>
      evaluateExpression (Suc n) (UnaryExpression MINUS expr) st
        = (Inr (VNumber (- asNumber v)), st'))
   \<and> isDouble (VNumber (- asNumber v)) \<and> \<not> isInteger (VNumber (- asNumber v))
   \<and> type (fst (nextToken (Lexer_new ''-5''))) = MINUS
   \<and> type (fst (nextToken (snd (nextToken (Lexer_new ''-5''))))) = NUMBER
   \<and> tvalue (fst (nextToken (snd (nextToken (Lexer_new ''-5''))))) = TVDouble 5
   \<and> evaluateExpression 1 (Literal (TVDouble 5)) st = (Inr (VInteger 5), st)
   \<and> evaluateExpression 2 (UnaryExpression MINUS (Literal (TVDouble 5))) st
        = (Inr (VNumber (- 5)), st)"
proof (intro conjI impI)
  assume "evaluate expr st = (Inr v, st')"
  then show "evaluateUnaryExpression evaluate MINUS expr st = (Inr (VNumber (- asNumber v)), st')"
    by (simp add: evaluateUnaryExpression_def andThen_apply ret_apply)
next
  assume "evaluateExpression n expr st = (Inr v, st')"
  then show "evaluateExpression (Suc n) (UnaryExpression MINUS expr) st
        = (Inr (VNumber (- asNumber v)), st')"
    by (simp add: evaluateExpression_switch_def evaluateUnaryExpression_def andThen_apply ret_apply)
next
  show "isDouble (VNumber (- asNumber v))" by (simp add: isDouble_def)
next
  show "\<not> isInteger (VNumber (- asNumber v))" by (simp add: isInteger_def)
next
  show "type (fst (nextToken (Lexer_new ''-5''))) = MINUS" by code_simp
next
  show "type (fst (nextToken (snd (nextToken (Lexer_new ''-5''))))) = NUMBER" by code_simp
next
  show "tvalue (fst (nextToken (snd (nextToken (Lexer_new ''-5''))))) = TVDouble 5" by code_simp
next
  show "evaluateExpression 1 (Literal (TVDouble 5)) st = (Inr (VInteger 5), st)"
    by (simp add: run)
next
  show "evaluateExpression 2 (UnaryExpression MINUS (Literal (TVDouble 5))) st
        = (Inr (VNumber (- 5)), st)"
    by (simp add: run)
qed

theorem unary_minus_is_double_witness:
  "evaluateExpression 1 (Literal (TVDouble 5)) Interpreter_new = (Inr (VInteger 5), Interpreter_new)
   \<and> evaluateUnaryExpression (evaluateExpression 1) MINUS (Literal (TVDouble 5)) Interpreter_new
       = (Inr (VNumber (- 5)), Interpreter_new)
   \<and> evaluateExpression 3 (UnaryExpression MINUS (UnaryExpression MINUS (Literal (TVDouble 5))))
        Interpreter_new = (Inr (VNumber 5), Interpreter_new)"
  using unary_minus_is_double [of "evaluateExpression 1" "Literal (TVDouble 5)" Interpreter_new
          "VInteger 5" Interpreter_new 1]
        unary_minus_is_double [of "evaluateExpression 1" "UnaryExpression MINUS (Literal (TVDouble 5))"
          Interpreter_new "VNumber (- 5)" Interpreter_new 2]
  by (simp add: value_simps numeral_3_eq_3 numeral_2_eq_2)

subsection \<open>Printing\<close>

lemma join_Cons: "join sep (x # xs) = x @ (if xs = [] then [] else sep @ join sep xs)"
  by (cases xs) simp_all

text \<open>The loop over the arguments, when no argument changes the state: the output so far is
  \<open>c\<close>, and the loop is at argument number \<open>i\<close>.\<close>

lemma printArguments_output:
  "list_all2 (\<lambda>e v. \<forall>c. evaluate e (st\<lparr>cout := c\<rparr>) = (Inr v, st\<lparr>cout := c\<rparr>)) args vs \<Longrightarrow>
   printArguments evaluate i args (st\<lparr>cout := c\<rparr>) =
     (Inr (), st\<lparr>cout := c @ (if 0 < i \<and> args \<noteq> [] then '' '' else [])
                              @ join '' '' (map toString vs)\<rparr>)"
proof (induction args arbitrary: vs i c)
  case Nil
  then show ?case by (simp add: ret_apply)
next
  case (Cons a rest)
  from Cons.prems obtain v vs' where vs: "vs = v # vs'"
    and a: "\<forall>c. evaluate a (st\<lparr>cout := c\<rparr>) = (Inr v, st\<lparr>cout := c\<rparr>)"
    and rest: "list_all2 (\<lambda>e v. \<forall>c. evaluate e (st\<lparr>cout := c\<rparr>) = (Inr v, st\<lparr>cout := c\<rparr>)) rest vs'"
    by (auto simp: list_all2_Cons1)
  from rest have len: "rest = [] \<longleftrightarrow> vs' = []"
    by (auto dest: list_all2_lengthD)
  show ?case
    by (simp add: vs a len Cons.IH [OF rest] join_Cons andThen_apply ret_apply cout_write_apply)
qed

text \<open>
  C9 (the arguments of a print statement). The statement has no direct string, as the
  parser builds it for a parenthesised list of arguments. When the arguments evaluate to the
  values \<open>vs\<close>, none of them changing the state or writing output, the statement appends to
  the output the texts of the values with one space between consecutive texts, no space
  before the first text or after the last, and then the end of line for \<^verbatim>\<open>println\<close>. For two
  arguments the output is the first text, a space and the second text. Whatever the
  arguments do: nothing is written before the first argument is evaluated, exactly one
  space is written before each later argument is evaluated, and nothing after the last.
\<close>

theorem print_arguments_separated:
  "(list_all2 (\<lambda>e v. \<forall>c. evaluate e (st\<lparr>cout := c\<rparr>) = (Inr v, st\<lparr>cout := c\<rparr>)) args vs \<longrightarrow>
     executePrintStatement evaluate isPrintln args [] st =
       (Inr (), st\<lparr>cout := cout st @ join '' '' (map toString vs)
                                @ (if isPrintln then endl else [])\<rparr>)
     \<and> (\<forall>v1 v2. vs = [v1, v2] \<longrightarrow>
          cout (snd (executePrintStatement evaluate False args [] st))
            = cout st @ toString v1 @ '' '' @ toString v2))
   \<and> printArguments evaluate 0 (arg # rest) st =
       andThen (evaluate arg) (\<lambda>v. andThen (cout_write (toString v)) (\<lambda>_.
         printArguments evaluate 1 rest)) st
   \<and> (0 < i \<longrightarrow>
        printArguments evaluate i (arg # rest) st =
          andThen (evaluate arg) (\<lambda>v. andThen (cout_write (toString v)) (\<lambda>_.
            printArguments evaluate (i + 1) rest)) (st\<lparr>cout := cout st @ '' ''\<rparr>))
   \<and> printArguments evaluate i [] st = (Inr (), st)"
proof -
  have args: "list_all2 (\<lambda>e v. \<forall>c. evaluate e (st\<lparr>cout := c\<rparr>) = (Inr v, st\<lparr>cout := c\<rparr>)) args vs \<longrightarrow>
     executePrintStatement evaluate isPrintln args [] st =
       (Inr (), st\<lparr>cout := cout st @ join '' '' (map toString vs)
                                @ (if isPrintln then endl else [])\<rparr>)
     \<and> (\<forall>v1 v2. vs = [v1, v2] \<longrightarrow>
          cout (snd (executePrintStatement evaluate False args [] st))
            = cout st @ toString v1 @ '' '' @ toString v2)"
  proof
    assume h: "list_all2 (\<lambda>e v. \<forall>c. evaluate e (st\<lparr>cout := c\<rparr>) = (Inr v, st\<lparr>cout := c\<rparr>)) args vs"
    have "printArguments evaluate 0 args (st\<lparr>cout := cout st\<rparr>) =
       (Inr (), st\<lparr>cout := cout st @ (if 0 < (0::nat) \<and> args \<noteq> [] then '' '' else [])
                                @ join '' '' (map toString vs)\<rparr>)"
      by (rule printArguments_output [OF h])
    then have p: "printArguments evaluate 0 args st =
        (Inr (), st\<lparr>cout := cout st @ join '' '' (map toString vs)\<rparr>)"
      by simp
    then have e: "\<And>b. executePrintStatement evaluate b args [] st =
         (Inr (), st\<lparr>cout := cout st @ join '' '' (map toString vs)
                                  @ (if b then endl else [])\<rparr>)"
      by (simp add: executePrintStatement_def andThen_apply ret_apply cout_write_apply)
    show "executePrintStatement evaluate isPrintln args [] st =
         (Inr (), st\<lparr>cout := cout st @ join '' '' (map toString vs)
                                  @ (if isPrintln then endl else [])\<rparr>)
       \<and> (\<forall>v1 v2. vs = [v1, v2] \<longrightarrow>
            cout (snd (executePrintStatement evaluate False args [] st))
              = cout st @ toString v1 @ '' '' @ toString v2)"
      by (simp add: e)
  qed
  have first: "printArguments evaluate 0 (arg # rest) st =
       andThen (evaluate arg) (\<lambda>v. andThen (cout_write (toString v)) (\<lambda>_.
         printArguments evaluate 1 rest)) st"
    by (simp add: andThen_apply ret_apply)
  have later: "0 < i \<longrightarrow>
        printArguments evaluate i (arg # rest) st =
          andThen (evaluate arg) (\<lambda>v. andThen (cout_write (toString v)) (\<lambda>_.
            printArguments evaluate (i + 1) rest)) (st\<lparr>cout := cout st @ '' ''\<rparr>)"
    by (simp add: andThen_apply cout_write_apply)
  have last: "printArguments evaluate i [] st = (Inr (), st)"
    by (simp add: ret_apply)
  from args first later last show ?thesis
    by (intro conjI)
qed

theorem print_arguments_separated_witness:
  "list_all2 (\<lambda>e v. \<forall>c. evaluateExpression 1 e (Interpreter_new\<lparr>cout := c\<rparr>)
                          = (Inr v, Interpreter_new\<lparr>cout := c\<rparr>))
     [Literal (TVDouble 1), Literal (TVString ''a''), Literal (TVBool True)]
     [VInteger 1, VString ''a'', VBoolean True]
   \<and> executePrintStatement (evaluateExpression 1) True
       [Literal (TVDouble 1), Literal (TVString ''a''), Literal (TVBool True)] [] Interpreter_new
       = (Inr (), Interpreter_new\<lparr>cout := ''1 a true'' @ endl\<rparr>)
   \<and> cout (snd (executePrintStatement (evaluateExpression 1) False
       [Literal (TVDouble 1), Literal (TVString ''a'')] [] Interpreter_new)) = ''1 a''"
  using print_arguments_separated [of "evaluateExpression 1" Interpreter_new
          "[Literal (TVDouble 1), Literal (TVString ''a''), Literal (TVBool True)]"
          "[VInteger 1, VString ''a'', VBoolean True]" True]
        print_arguments_separated [of "evaluateExpression 1" Interpreter_new
          "[Literal (TVDouble 1), Literal (TVString ''a'')]"
          "[VInteger 1, VString ''a'']" False]
  by (simp add: monad_apply evaluateExpression_numeral value_simps operator_defs text_defs
        evaluateExpression_switch_def evaluateLiteral_def Interpreter_new_def)

subsection \<open>A declaration in a block and the scopes outside it\<close>

subsubsection \<open>Scopes\<close>















subsubsection \<open>Rules for computations\<close>


lemma hoareD: "hoare P m Q E \<Longrightarrow> P st \<Longrightarrow> post Q E (m st)"
  by (simp add: hoare_def)











lemma hoare_saveEnvironment:
  assumes "\<And>d. hoare (\<lambda>st. P st \<and> length (m_environment st) = d) (f d) Q E"
  shows "hoare P (andThen saveEnvironment f) Q E"
  using assms unfolding hoare_def by (simp add: andThen_def saveEnvironment_def)

lemma hoare_setEnvironment:
  "shadowed x bs env \<Longrightarrow> length env = l \<Longrightarrow>
   hoare P (setEnvironment env) (\<lambda>_. scopesAt x bs l) E"
  by (simp add: hoare_def setEnvironment_def scopesAt_def)





subsubsection \<open>Computations that keep the outer scopes\<close>







































text \<open>A block statement in a whole program: the assignment in the block changes the \<open>x\<close> of
  the block, and the \<open>x\<close> declared at top level is still 1 after it.\<close>

lemma block_statement_in_program:
  "main 30 (Inr blockProgram)
     = \<lparr>ending = Exited 0, stdout = ''3'' @ endl @ ''1'' @ endl, stderr = []\<rparr>"
  by (simp add: run blockProgram_def)

end
